theory Spec2Isabelle
  imports Complex_Main "HOL-Library.List_Lexorder" "HOL-Library.Multiset"
begin

section \<open>JavaScript strings\<close>

text \<open>
  A JavaScript string is a sequence of UTF-16 code units, and \<open>length\<close>, \<open>substring\<close>,
  \<open>indexOf\<close> and the default \<open>sort\<close> all work on code units. A code unit is modelled as
  a natural number, a string as the list of its code units; \<open>str\<close> turns an ASCII literal
  into such a list. The order on lists (lexicographic, a proper prefix first) is the order
  in which \<open>Array.prototype.sort\<close> without a comparator puts strings.
\<close>

type_synonym jstr = "nat list"

abbreviation (input) str :: "string \<Rightarrow> jstr" where
  "str s \<equiv> map of_char s"

text \<open>\<open>Array.prototype.join\<close> on an array of strings.\<close>

fun join :: "jstr \<Rightarrow> jstr list \<Rightarrow> jstr" where
  "join sep [] = []"
| "join sep [x] = x"
| "join sep (x # y # ys) = x @ sep @ join sep (y # ys)"

text \<open>
  \<open>String.prototype.trim\<close> removes white space and line terminators from both ends:
  U+0009..U+000D, U+0020, U+00A0, U+1680, U+2000..U+200A, U+2028, U+2029, U+202F, U+205F,
  U+3000 and U+FEFF.
\<close>

definition is_space :: "nat \<Rightarrow> bool" where
  "is_space c \<longleftrightarrow>
     (9 \<le> c \<and> c \<le> 13) \<or> c = 32 \<or> c = 160 \<or> c = 5760 \<or> (8192 \<le> c \<and> c \<le> 8202) \<or>
     c = 8232 \<or> c = 8233 \<or> c = 8239 \<or> c = 8287 \<or> c = 12288 \<or> c = 65279"

definition trim :: "jstr \<Rightarrow> jstr" where
  "trim s = rev (dropWhile is_space (rev (dropWhile is_space s)))"

text \<open>
  \<open>substring(start, end)\<close>: both arguments are clamped to \<open>0..length\<close> and swapped when
  \<open>start > end\<close>.
\<close>

definition clamp_index :: "jstr \<Rightarrow> int \<Rightarrow> nat" where
  "clamp_index s i = min (nat i) (length s)"

definition substring :: "jstr \<Rightarrow> int \<Rightarrow> int \<Rightarrow> jstr" where
  "substring s start stop =
     (let a = clamp_index s start; b = clamp_index s stop
      in take (max a b - min a b) (drop (min a b) s))"

definition substring_from :: "jstr \<Rightarrow> int \<Rightarrow> jstr" where
  "substring_from s start = drop (clamp_index s start) s"

definition startsWith :: "jstr \<Rightarrow> jstr \<Rightarrow> bool" where
  "startsWith s p \<longleftrightarrow> take (length p) s = p"

definition endsWith :: "jstr \<Rightarrow> jstr \<Rightarrow> bool" where
  "endsWith s p \<longleftrightarrow> length p \<le> length s \<and> drop (length s - length p) s = p"

text \<open>
  \<open>lastIndexOf(p, from)\<close>: the largest index \<open>k \<le> from\<close> at which \<open>p\<close> occurs in \<open>s\<close>,
  or \<open>-1\<close>. Without \<open>from\<close> the search starts at the end of the string.
\<close>

fun lastIndexOf_from :: "jstr \<Rightarrow> jstr \<Rightarrow> nat \<Rightarrow> int" where
  "lastIndexOf_from s p 0 = (if startsWith s p then 0 else - 1)"
| "lastIndexOf_from s p (Suc k) =
     (if startsWith (drop (Suc k) s) p then int (Suc k) else lastIndexOf_from s p k)"

definition lastIndexOf :: "jstr \<Rightarrow> jstr \<Rightarrow> int" where
  "lastIndexOf s p = lastIndexOf_from s p (length s)"

text \<open>\<open>indexOf(p)\<close>: the smallest index at which \<open>p\<close> occurs, or \<open>-1\<close>.\<close>

fun indexOf_from :: "jstr \<Rightarrow> jstr \<Rightarrow> nat \<Rightarrow> int" where
  "indexOf_from [] p k = (if p = [] then int k else - 1)"
| "indexOf_from (c # cs) p k =
     (if startsWith (c # cs) p then int k else indexOf_from cs p (Suc k))"

definition indexOf :: "jstr \<Rightarrow> jstr \<Rightarrow> int" where
  "indexOf s p = indexOf_from s p 0"

definition includes_str :: "jstr \<Rightarrow> jstr \<Rightarrow> bool" where
  "includes_str s p \<longleftrightarrow> indexOf s p \<noteq> - 1"

text \<open>
  \<open>toLowerCase\<close>, on the ASCII letters. The source lower-cases a text only to compare its
  beginning with an ASCII prefix that holds no \<open>k\<close>; the only code units outside
  \<open>A..Z\<close> whose lower case contains an ASCII letter are U+212A (to \<open>k\<close>) and U+0130
  (to \<open>i\<close> followed by U+0307, which no prefix of the source continues with), so this
  comparison gives the same answer with the full Unicode mapping.
\<close>

definition lower_unit :: "nat \<Rightarrow> nat" where
  "lower_unit c = (if 65 \<le> c \<and> c \<le> 90 then c + 32 else c)"

definition toLowerCase :: "jstr \<Rightarrow> jstr" where
  "toLowerCase s = map lower_unit s"


section \<open>The cache (src/lib/cache.ts)\<close>

text \<open>
  \<open>CacheManager\<close> holds a \<open>Map\<close> from keys to entries \<open>{data, expires}\<close>. Times are
  milliseconds as \<open>Date.now()\<close> returns them; the clock is an argument of \<open>get\<close> and
  \<open>set\<close>, which return the map after the call. Numbers are exact rationals (the rounding
  of doubles is not modelled). \<open>get\<close> returns \<open>null\<close> for a missing or expired entry,
  here \<open>None\<close>.
\<close>

record 'v entry =
  data :: 'v
  expires :: rat

type_synonym 'v cache = "jstr \<rightharpoonup> 'v entry"

definition cache_get :: "'v cache \<Rightarrow> rat \<Rightarrow> jstr \<Rightarrow> 'v option \<times> 'v cache" where
  "cache_get c now key =
     (case c key of
        Some cached \<Rightarrow>
          if expires cached > now then (Some (data cached), c)
          else (None, c(key := None))
      | None \<Rightarrow> (None, c))"


text \<open>
  \<open>generateKey(prefix, params)\<close>. The parameter object is the list of its own properties,
  each key once; \<open>Object.keys\<close> lists the keys (JavaScript puts integer-like keys first,
  which the sort that follows makes immaterial). A template literal turns the
  interpolated value into a string with the runtime's \<open>ToString\<close>, the argument
  \<open>toString\<close> here, since
  the values are of type \<open>any\<close>; a property that is not there reads as \<open>undefined\<close>.
\<close>

definition Object_keys :: "(jstr \<times> 'v) list \<Rightarrow> jstr list" where
  "Object_keys params = map fst params"

definition prop_string :: "('v \<Rightarrow> jstr) \<Rightarrow> (jstr \<times> 'v) list \<Rightarrow> jstr \<Rightarrow> jstr" where
  "prop_string toString params key =
     (case map_of params key of Some v \<Rightarrow> toString v | None \<Rightarrow> str ''undefined'')"

definition generateKey :: "('v \<Rightarrow> jstr) \<Rightarrow> jstr \<Rightarrow> (jstr \<times> 'v) list \<Rightarrow> jstr" where
  "generateKey toString prefix params =
     (let sortedParams =
            join (str ''|'')
              (map (\<lambda>key. key @ str '':'' @ prop_string toString params key)
                 (sort (Object_keys params)))
      in prefix @ str '':'' @ sortedParams)"


section \<open>JSON values and \<open>JSON.parse\<close>\<close>

text \<open>
  The values \<open>JSON.parse\<close> produces. A number is the exact rational its literal denotes
  (the rounding to a double, and the overflow to \<open>Infinity\<close>, are not modelled). An
  object is the list of its members in the order of the text; a later member with the
  same key wins when a property is read.
\<close>

datatype json =
    JNull
  | JBool bool
  | JNum rat
  | JStr jstr
  | JArr "json list"
  | JObj "(jstr \<times> json) list"

text \<open>
  \<open>JSON.parse\<close> follows the JSON grammar (ECMA-404): white space is space, tab, line feed
  and carriage return; a string holds no raw control character and the escapes
  \<open>\" \\ \/ \b \f \n \r \t \uXXXX\<close>; a number is \<open>-? int frac? exp?\<close> with no leading
  zero; the literals are \<open>true\<close>, \<open>false\<close> and \<open>null\<close>. A text that is not JSON makes
  \<open>JSON.parse\<close> throw a \<open>SyntaxError\<close>: the parser returns \<open>None\<close>.
\<close>

definition json_ws :: "nat \<Rightarrow> bool" where
  "json_ws c \<longleftrightarrow> c = 32 \<or> c = 9 \<or> c = 10 \<or> c = 13"

definition skip_ws :: "jstr \<Rightarrow> jstr" where
  "skip_ws s = dropWhile json_ws s"

definition is_digit :: "nat \<Rightarrow> bool" where
  "is_digit c \<longleftrightarrow> 48 \<le> c \<and> c \<le> 57"

definition hex_digit :: "nat \<Rightarrow> nat option" where
  "hex_digit c =
     (if 48 \<le> c \<and> c \<le> 57 then Some (c - 48)
      else if 65 \<le> c \<and> c \<le> 70 then Some (c - 55)
      else if 97 \<le> c \<and> c \<le> 102 then Some (c - 87)
      else None)"

fun hex4 :: "jstr \<Rightarrow> nat option" where
  "hex4 (a # b # c # d # rest) =
     (case (hex_digit a, hex_digit b, hex_digit c, hex_digit d) of
        (Some x, Some y, Some z, Some w) \<Rightarrow> Some (((x * 16 + y) * 16 + z) * 16 + w)
      | _ \<Rightarrow> None)"
| "hex4 _ = None"

definition escape_char :: "nat \<Rightarrow> nat option" where
  "escape_char e =
     (if e = 34 then Some 34 else if e = 92 then Some 92 else if e = 47 then Some 47
      else if e = 98 then Some 8 else if e = 102 then Some 12 else if e = 110 then Some 10
      else if e = 114 then Some 13 else if e = 116 then Some 9 else None)"

fun parse_chars :: "jstr \<Rightarrow> (jstr \<times> jstr) option" where
  "parse_chars [] = None"
| "parse_chars (c # cs) =
     (if c = 34 then Some ([], cs)
      else if c = 92 then
        (case cs of
           [] \<Rightarrow> None
         | e # cs' \<Rightarrow>
             if e = 117 then
               (case hex4 cs' of
                  None \<Rightarrow> None
                | Some u \<Rightarrow> map_option (\<lambda>(xs, r). (u # xs, r)) (parse_chars (drop 4 cs')))
             else
               (case escape_char e of
                  None \<Rightarrow> None
                | Some x \<Rightarrow> map_option (\<lambda>(xs, r). (x # xs, r)) (parse_chars cs')))
      else if c < 32 then None
      else map_option (\<lambda>(xs, r). (c # xs, r)) (parse_chars cs))"

definition digits_value :: "jstr \<Rightarrow> nat" where
  "digits_value ds = foldl (\<lambda>acc d. acc * 10 + (d - 48)) 0 ds"

text \<open>
  A number: an optional minus, the integer part (no leading zero), an optional fraction
  and an optional exponent.
\<close>

definition parse_fraction :: "jstr \<Rightarrow> (jstr \<times> jstr) option" where
  "parse_fraction s =
     (case s of
        [] \<Rightarrow> Some ([], s)
      | c # cs \<Rightarrow>
          if c = 46 then
            (let fp = takeWhile is_digit cs
             in if fp = [] then None else Some (fp, dropWhile is_digit cs))
          else Some ([], s))"

definition parse_sign :: "jstr \<Rightarrow> bool \<times> jstr" where
  "parse_sign s =
     (case s of
        [] \<Rightarrow> (False, s)
      | d # ds \<Rightarrow> if d = 45 then (True, ds) else if d = 43 then (False, ds) else (False, s))"

definition parse_exponent :: "jstr \<Rightarrow> (int \<times> jstr) option" where
  "parse_exponent s =
     (case s of
        [] \<Rightarrow> Some (0, s)
      | c # cs \<Rightarrow>
          if c = 101 \<or> c = 69 then
            (let (eneg, cs1) = parse_sign cs;
                 ep = takeWhile is_digit cs1
             in if ep = [] then None
                else Some (if eneg then - int (digits_value ep) else int (digits_value ep),
                           dropWhile is_digit cs1))
          else Some (0, s))"

definition parse_number :: "jstr \<Rightarrow> (rat \<times> jstr) option" where
  "parse_number s =
     (let (neg, s1) = (case s of c # cs \<Rightarrow> if c = 45 then (True, cs) else (False, s)
                       | [] \<Rightarrow> (False, s));
          ip = takeWhile is_digit s1;
          s2 = dropWhile is_digit s1
      in if ip = [] \<or> (length ip > 1 \<and> hd ip = 48) then None
         else
           (case parse_fraction s2 of
              None \<Rightarrow> None
            | Some (fp, s3) \<Rightarrow>
                (case parse_exponent s3 of
                   None \<Rightarrow> None
                 | Some (e, s4) \<Rightarrow>
                     (let m = of_nat (digits_value ip) + of_nat (digits_value fp) / 10 ^ length fp;
                          v = (if e \<ge> 0 then m * 10 ^ nat e else m / 10 ^ nat (- e))
                      in Some (if neg then - v else v, s4)))))"

text \<open>A value that is not an array or an object: a string, a literal or a number.\<close>

definition parse_scalar :: "jstr \<Rightarrow> (json \<times> jstr) option" where
  "parse_scalar s =
     (case s of
        [] \<Rightarrow> None
      | c # cs \<Rightarrow>
          if c = 34 then map_option (\<lambda>(xs, r). (JStr xs, r)) (parse_chars cs)
          else if startsWith s (str ''true'') then Some (JBool True, drop 4 s)
          else if startsWith s (str ''false'') then Some (JBool False, drop 5 s)
          else if startsWith s (str ''null'') then Some (JNull, drop 4 s)
          else map_option (\<lambda>(x, r). (JNum x, r)) (parse_number s))"

text \<open>
  Arrays and objects nest, so the parser of values recurses through the parsers of
  elements and members; the first argument bounds the depth of these calls.
  \<open>JSON_parse\<close> starts it at \<open>Suc (length s)\<close>, which is enough for every text \<open>s\<close>:
  a parse that succeeds with some bound succeeds with every bound that is at least the
  number of code units it reads (lemma \<open>JSON_parse_bound\<close> below).
\<close>

fun parse_value :: "nat \<Rightarrow> jstr \<Rightarrow> (json \<times> jstr) option"
  and parse_elements :: "nat \<Rightarrow> jstr \<Rightarrow> (json list \<times> jstr) option"
  and parse_members :: "nat \<Rightarrow> jstr \<Rightarrow> ((jstr \<times> json) list \<times> jstr) option"
where
  "parse_value 0 s = None"
| "parse_value (Suc n) s =
     (case skip_ws s of
        [] \<Rightarrow> None
      | c # cs \<Rightarrow>
          if c = 91 then
            (case skip_ws cs of
               [] \<Rightarrow> None
             | d # ds \<Rightarrow> if d = 93 then Some (JArr [], ds)
                         else map_option (\<lambda>(vs, r). (JArr vs, r)) (parse_elements n cs))
          else if c = 123 then
            (case skip_ws cs of
               [] \<Rightarrow> None
             | d # ds \<Rightarrow> if d = 125 then Some (JObj [], ds)
                         else map_option (\<lambda>(ms, r). (JObj ms, r)) (parse_members n cs))
          else parse_scalar (c # cs))"
| "parse_elements 0 s = None"
| "parse_elements (Suc n) s =
     (case parse_value n s of
        None \<Rightarrow> None
      | Some (v, r) \<Rightarrow>
          (case skip_ws r of
             [] \<Rightarrow> None
           | c # cs \<Rightarrow>
               if c = 93 then Some ([v], cs)
               else if c = 44 then map_option (\<lambda>(vs, r'). (v # vs, r')) (parse_elements n cs)
               else None))"
| "parse_members 0 s = None"
| "parse_members (Suc n) s =
     (case skip_ws s of
        [] \<Rightarrow> None
      | q # qs \<Rightarrow>
          if q \<noteq> 34 then None
          else
            (case parse_chars qs of
               None \<Rightarrow> None
             | Some (k, r0) \<Rightarrow>
                 (case skip_ws r0 of
                    [] \<Rightarrow> None
                  | c0 # r1 \<Rightarrow>
                      if c0 \<noteq> 58 then None
                      else
                        (case parse_value n r1 of
                           None \<Rightarrow> None
                         | Some (v, r) \<Rightarrow>
                             (case skip_ws r of
                                [] \<Rightarrow> None
                              | c # cs \<Rightarrow>
                                  if c = 125 then Some ([(k, v)], cs)
                                  else if c = 44 then
                                    map_option (\<lambda>(ms, r'). ((k, v) # ms, r')) (parse_members n cs)
                                  else None)))))"

definition JSON_parse :: "jstr \<Rightarrow> json option" where
  "JSON_parse s =
     (case parse_value (Suc (length s)) s of
        None \<Rightarrow> None
      | Some (v, r) \<Rightarrow> if skip_ws r = [] then Some v else None)"

text \<open>
  A bound is enough for a parse of \<open>s\<close> that leaves \<open>r\<close> when every bound of at least
  the number of code units read gives the same parse.
\<close>

definition enough :: "(nat \<Rightarrow> jstr \<Rightarrow> ('a \<times> jstr) option) \<Rightarrow> jstr \<Rightarrow> 'a \<Rightarrow> jstr \<Rightarrow> bool" where
  "enough parser s x r \<longleftrightarrow>
     length r < length s \<and> (\<forall>m. length s \<le> m + length r \<longrightarrow> parser m s = Some (x, r))"

section \<open>Trend aggregation and post ideas (src/lib/trends.ts)\<close>

text \<open>
  An exception is a thrown \<open>Error\<close> with its name and message. A promise settles as
  \<open>Promise.allSettled\<close> reports it: fulfilled with a value or rejected with a reason.
\<close>

datatype exn = Exn (exn_name: jstr) (message: jstr)

datatype 'a settled = Fulfilled 'a | Rejected exn

record TrendingCoin =
  coin_name :: jstr
  coin_symbol :: jstr
  coin_rank :: rat
  priceBtc :: rat
  marketCap :: rat
  priceChange24h :: rat

record RedditPost =
  title :: jstr
  score :: rat
  subreddit :: jstr
  post_url :: jstr
  comments :: rat
  created :: rat

record NewsArticle =
  headline :: jstr
  article_url :: jstr
  publishedAt :: jstr
  article_relevance_score :: rat
  description :: "jstr option"

record TrendData =
  google :: "jstr list"
  xcom :: "jstr list"
  coingecko :: "TrendingCoin list"
  reddit :: "RedditPost list"
  news :: "NewsArticle list"

text \<open>\<open>config.sources\<close>: three switches, and the \<open>enabled\<close> flags of reddit and news.\<close>

record sources_config =
  sources_googleTrends :: bool
  sources_xcom :: bool
  sources_coingecko :: bool
  sources_reddit_enabled :: bool
  sources_news_enabled :: bool

text \<open>
  The five source adapters are \<open>async\<close> methods of other modules: a call returns a
  promise, which settles. The record gives, for each adapter and its arguments, what that
  promise settles with.
\<close>

record services =
  getAutocompleteSuggestions :: "jstr list \<Rightarrow> jstr \<Rightarrow> jstr list settled"
  getUKTrends :: "jstr list settled"
  getTrendingCoins :: "TrendingCoin list settled"
  getRelevantDiscussions :: "jstr list \<Rightarrow> jstr \<Rightarrow> RedditPost list settled"
  getRelevantArticles :: "jstr list \<Rightarrow> jstr \<Rightarrow> jstr \<Rightarrow> NewsArticle list settled"

record businessData =
  businessName :: jstr
  businessType :: jstr
  ukCity :: jstr
  industry :: jstr
  targetAudience :: jstr
  servicesOffered :: jstr
  businessPersonality :: "jstr option"
  postType :: "jstr option"

text \<open>
  \<open>analyzeTrends\<close>. A switched-off source contributes \<open>Promise.resolve([])\<close>.
  \<open>await Promise.allSettled\<close> never rejects, so the function has no failing path; its
  result is a sum all the same, \<open>Inl\<close> standing for a rejection of the returned promise.
  The calls of the optional logger append to the log and write to the console, and are
  left out.
\<close>

definition settled_or_empty :: "'a list settled \<Rightarrow> 'a list" where
  "settled_or_empty r = (case r of Fulfilled v \<Rightarrow> v | Rejected e \<Rightarrow> [])"

definition analyzeTrends ::
  "sources_config \<Rightarrow> services \<Rightarrow> jstr list \<Rightarrow> businessData \<Rightarrow> exn + TrendData" where
  "analyzeTrends sources svc keywords bd =
     (let googleSuggestions =
            (if sources_googleTrends sources
             then getAutocompleteSuggestions svc keywords (ukCity bd) else Fulfilled []);
          xcomTrends = (if sources_xcom sources then getUKTrends svc else Fulfilled []);
          coingeckoTrends =
            (if sources_coingecko sources then getTrendingCoins svc else Fulfilled []);
          redditDiscussions = getRelevantDiscussions svc keywords (ukCity bd);
          newsArticles = getRelevantArticles svc keywords (businessType bd) (ukCity bd)
      in Inr \<lparr>google = settled_or_empty googleSuggestions,
              xcom = settled_or_empty xcomTrends,
              coingecko = settled_or_empty coingeckoTrends,
              reddit = settled_or_empty redditDiscussions,
              news = settled_or_empty newsArticles\<rparr>)"

text \<open>
  A \<open>PostIdea\<close>. The interface declares strings and a number, but the fields are filled
  from parsed JSON without a check, so at run time they hold any JSON value;
  \<open>business_benefit\<close> is optional.
\<close>

record PostIdea =
  idea_id :: jstr
  concept :: json
  trend_source :: json
  relevance_score :: json
  business_benefit :: "json option"

text \<open>Decimal digits of a natural number, as a template literal prints an index.\<close>

fun decimal :: "nat \<Rightarrow> jstr" where
  "decimal n = (if n < 10 then [48 + n] else decimal (n div 10) @ [48 + n mod 10])"

declare decimal.simps [simp del]

text \<open>
  Reading a property: of \<open>null\<close> it throws a \<open>TypeError\<close> (\<open>None\<close>); of an object it
  gives the member's value, \<open>undefined\<close> when there is none; of any other JSON value
  the names read here are \<open>undefined\<close>. \<open>a || b\<close> is \<open>a\<close> when \<open>a\<close> is truthy:
  \<open>undefined\<close>, \<open>null\<close>, \<open>false\<close>, \<open>0\<close> and the empty string are not.
\<close>

datatype jsval = Undefined | Val json

definition get_property :: "json \<Rightarrow> jstr \<Rightarrow> jsval option" where
  "get_property v key =
     (case v of
        JNull \<Rightarrow> None
      | JObj members \<Rightarrow>
          Some (case map_of (rev members) key of Some x \<Rightarrow> Val x | None \<Rightarrow> Undefined)
      | _ \<Rightarrow> Some Undefined)"

fun truthy :: "json \<Rightarrow> bool" where
  "truthy JNull = False"
| "truthy (JBool b) = b"
| "truthy (JNum x) = (x \<noteq> 0)"
| "truthy (JStr s) = (s \<noteq> [])"
| "truthy (JArr xs) = True"
| "truthy (JObj ms) = True"

definition or_default :: "jsval \<Rightarrow> json \<Rightarrow> json" where
  "or_default v d = (case v of Undefined \<Rightarrow> d | Val x \<Rightarrow> if truthy x then x else d)"

text \<open>The callback of \<open>ideas.map\<close>, for the element \<open>idea\<close> at \<open>index\<close>.\<close>

definition make_idea :: "json \<Rightarrow> nat \<Rightarrow> PostIdea option" where
  "make_idea idea index =
     (case (get_property idea (str ''concept''), get_property idea (str ''trend_source''),
            get_property idea (str ''relevance_score''),
            get_property idea (str ''business_benefit'')) of
        (Some c, Some t, Some r, Some b) \<Rightarrow>
          Some \<lparr>idea_id = str ''idea_'' @ decimal (index + 1),
                concept = or_default c (JStr (str ''Business idea '' @ decimal (index + 1))),
                trend_source = or_default t (JStr (str ''General trend analysis'')),
                relevance_score = or_default r (JNum (1 / 2)),
                business_benefit =
                  Some (or_default b (JStr (str ''Provides engagement opportunity'')))\<rparr>
      | _ \<Rightarrow> None)"

fun map_ideas :: "json list \<Rightarrow> nat \<Rightarrow> PostIdea list option" where
  "map_ideas [] index = Some []"
| "map_ideas (idea # rest) index =
     (case make_idea idea index of
        None \<Rightarrow> None
      | Some p \<Rightarrow> map_option ((#) p) (map_ideas rest (Suc index)))"

text \<open>
  \<open>Array.prototype.sort\<close> with a comparator is stable: an element goes before the first
  one it does not compare greater than. The comparator \<open>b.relevance_score -
  a.relevance_score\<close> turns both scores into numbers; a result of \<open>NaN\<close> counts as \<open>0\<close>.
  \<open>ToNumber\<close> is given for \<open>null\<close>, booleans and numbers; for strings, arrays and
  objects it is not modelled and taken as \<open>NaN\<close> (\<open>None\<close>), and with an inconsistent
  comparator the order is implementation-defined, so the statements about the order below
  are about numeric scores.
\<close>

fun ToNumber :: "json \<Rightarrow> rat option" where
  "ToNumber JNull = Some 0"
| "ToNumber (JBool b) = Some (if b then 1 else 0)"
| "ToNumber (JNum x) = Some x"
| "ToNumber (JStr s) = None"
| "ToNumber (JArr xs) = None"
| "ToNumber (JObj ms) = None"

definition compare_ideas :: "PostIdea \<Rightarrow> PostIdea \<Rightarrow> rat" where
  "compare_ideas a b =
     (case (ToNumber (relevance_score b), ToNumber (relevance_score a)) of
        (Some y, Some x) \<Rightarrow> y - x
      | _ \<Rightarrow> 0)"

fun insert_sorted :: "('a \<Rightarrow> 'a \<Rightarrow> rat) \<Rightarrow> 'a \<Rightarrow> 'a list \<Rightarrow> 'a list" where
  "insert_sorted cmp x [] = [x]"
| "insert_sorted cmp x (y # ys) =
     (if cmp x y \<le> 0 then x # y # ys else y # insert_sorted cmp x ys)"

definition Array_sort :: "('a \<Rightarrow> 'a \<Rightarrow> rat) \<Rightarrow> 'a list \<Rightarrow> 'a list" where
  "Array_sort cmp xs = foldr (insert_sorted cmp) xs []"

text \<open>
  \<open>content.match(/\[[\s\S]*\]/)\<close>: the star is greedy and \<open>[\s\S]\<close> matches every code
  unit, so the match runs from the first \<open>[\<close> of the text to its last \<open>]\<close>; there is
  none when no \<open>]\<close> follows the first \<open>[\<close>.
\<close>

definition match_array :: "jstr \<Rightarrow> jstr option" where
  "match_array content =
     (case dropWhile (\<lambda>c. c \<noteq> 91) content of
        [] \<Rightarrow> None
      | b # rest \<Rightarrow>
          if 93 \<in> set rest then Some (b # rev (dropWhile (\<lambda>c. c \<noteq> 93) (rev rest)))
          else None)"

text \<open>
  \<open>getFallbackPostIdeas\<close>: five fixed ideas; the source of the first is replaced by the
  first news headline (its first 60 code units) and the source of the third by the first
  trending coin, when there are any.
\<close>

definition fallback_idea :: "string \<Rightarrow> string \<Rightarrow> string \<Rightarrow> rat \<Rightarrow> PostIdea" where
  "fallback_idea i c t r =
     \<lparr>idea_id = str i, concept = JStr (str c), trend_source = JStr (str t),
      relevance_score = JNum r, business_benefit = None\<rparr>"

definition getFallbackPostIdeas :: "TrendData \<Rightarrow> PostIdea list" where
  "getFallbackPostIdeas trendsData =
     (let fallbackIdeas =
            [fallback_idea ''idea_1'' ''BTC dominance shifting again''
               ''General: Crypto market trends'' (7 / 10),
             fallback_idea ''idea_2'' ''New AI model just dropped''
               ''General: AI model releases'' (7 / 10),
             fallback_idea ''idea_3'' ''Altcoin season incoming signals''
               ''General: Crypto cycle analysis'' (6 / 10),
             fallback_idea ''idea_4'' ''AI agents changing everything''
               ''General: Agentic AI trends'' (6 / 10),
             fallback_idea ''idea_5'' ''Whale alert worth watching''
               ''General: On-chain data'' (5 / 10)];
          fallbackIdeas1 =
            (case news trendsData of
               [] \<Rightarrow> fallbackIdeas
             | a # _ \<Rightarrow>
                 fallbackIdeas[0 := (fallbackIdeas ! 0)
                   \<lparr>trend_source :=
                      JStr (str ''News: '' @ substring (headline a) 0 60 @ str ''...'')\<rparr>]);
          fallbackIdeas2 =
            (case coingecko trendsData of
               [] \<Rightarrow> fallbackIdeas1
             | top_coin # _ \<Rightarrow>
                 fallbackIdeas1[2 := (fallbackIdeas1 ! 2)
                   \<lparr>trend_source :=
                      JStr (str ''CoinGecko: '' @ coin_name top_coin @ str '' ('' @ coin_symbol top_coin
                            @ str '') trending'')\<rparr>])
      in fallbackIdeas2)"

text \<open>
  \<open>parsePostIdeasFromResponse\<close>. Everything after the match runs inside \<open>try\<close>: a
  \<open>SyntaxError\<close> of \<open>JSON.parse\<close> and a \<open>TypeError\<close> of the mapping (a \<open>null\<close>
  element, or a parsed value without \<open>map\<close>) end in the \<open>catch\<close>, which returns the
  fallback ideas.
\<close>

definition parsePostIdeasFromResponse :: "jstr \<Rightarrow> TrendData \<Rightarrow> PostIdea list" where
  "parsePostIdeasFromResponse content trendsData =
     (case match_array content of
        None \<Rightarrow> getFallbackPostIdeas trendsData
      | Some jsonMatch \<Rightarrow>
          (case JSON_parse jsonMatch of
             Some (JArr ideas) \<Rightarrow>
               (case map_ideas ideas 0 of
                  None \<Rightarrow> getFallbackPostIdeas trendsData
                | Some mapped \<Rightarrow> take 8 (Array_sort compare_ideas mapped))
           | _ \<Rightarrow> getFallbackPostIdeas trendsData))"

text \<open>
  \<open>ToString\<close>, as a template literal applies it to an interpolated value that came out of
  \<open>JSON.parse\<close>: a string is itself; \<open>null\<close>, \<open>true\<close> and \<open>false\<close> are their names; an
  array is its elements joined by commas, a \<open>null\<close> element counting as the empty string;
  an object is \<open>[object Object]\<close>, unless it has a member named \<open>toString\<close>: that
  member hides the inherited method and is not a function, so the conversion throws a
  \<open>TypeError\<close> (\<open>None\<close>). The text of a number is the runtime's, the argument \<open>num\<close>.
\<close>

fun ToString :: "(rat \<Rightarrow> jstr) \<Rightarrow> json \<Rightarrow> jstr option" where
  "ToString num JNull = Some (str ''null'')"
| "ToString num (JBool b) = Some (if b then str ''true'' else str ''false'')"
| "ToString num (JNum x) = Some (num x)"
| "ToString num (JStr s) = Some s"
| "ToString num (JArr xs) =
     map_option (join (str '',''))
       (those (map (\<lambda>x. if x = JNull then Some [] else ToString num x) xs))"
| "ToString num (JObj ms) =
     (if str ''toString'' \<in> set (map fst ms) then None else Some (str ''[object Object]''))"

text \<open>
  The readings of the claims about the list of ideas: an idea is well typed when its
  concept and source (and benefit, when there is one) are strings and its score is a
  number, as the interface \<open>PostIdea\<close> declares; a list is sorted descending by
  relevance when, of any two ideas, the earlier one has the score that is not smaller, both
  scores being numbers.
\<close>

definition is_number :: "json \<Rightarrow> bool" where
  "is_number v = (case v of JNum x \<Rightarrow> True | _ \<Rightarrow> False)"

definition is_string :: "json \<Rightarrow> bool" where
  "is_string v = (case v of JStr s \<Rightarrow> True | _ \<Rightarrow> False)"

definition well_typed :: "PostIdea \<Rightarrow> bool" where
  "well_typed p \<longleftrightarrow>
     is_string (concept p) \<and> is_string (trend_source p) \<and> is_number (relevance_score p) \<and>
     (case business_benefit p of None \<Rightarrow> True | Some b \<Rightarrow> is_string b)"


section \<open>Platform content (content.ts)\<close>

text \<open>
  What the run does to the outside (files, the network, the clock, the random generator)
  is a state \<open>'w\<close> that every such call takes and returns; a call that may throw
  returns \<open>Inl\<close> of the exception. \<open>bind_io\<close> is \<open>await\<close> followed by the rest of an
  \<open>async\<close> function: an exception ends it.
\<close>

type_synonym ('w, 'a) io = "'w \<Rightarrow> (exn + 'a) \<times> 'w"

definition bind_io :: "('w, 'a) io \<Rightarrow> ('a \<Rightarrow> ('w, 'b) io) \<Rightarrow> ('w, 'b) io" where
  "bind_io m f w = (case m w of (Inl e, w') \<Rightarrow> (Inl e, w') | (Inr x, w') \<Rightarrow> f x w')"

definition return_io :: "'a \<Rightarrow> ('w, 'a) io" where
  "return_io x w = (Inr x, w)"

record CurrentPost =
  post_platform :: jstr
  post_text :: jstr
  post_idea :: json
  post_timestamp :: rat
  imagePath :: "jstr option"

text \<open>
  The collaborators of the content renderer and of the pipeline, which are other modules or
  the runtime:
  \<^item> \<open>Number_toString\<close>, the text of a number, and \<open>conversion_error\<close>, the
    \<open>TypeError\<close> thrown for a value without a string conversion;
  \<^item> \<open>Date_now\<close>, the clock, in milliseconds;
  \<^item> \<open>rm\<close> and \<open>mkdir\<close> of \<open>fs/promises\<close>;
  \<^item> \<open>makeRequest\<close> (claude.ts), the language-model call, which throws on a bad status;
  \<^item> \<open>getRecentPostSnippets\<close>, \<open>logPost\<close> and \<open>saveToFile\<close> of the logger; the first
    catches its own errors;
  \<^item> the prompt builders, long templates whose text no property here depends on; the
    one for content interpolates the fields of the idea and throws when one of them has
    no string conversion;
  \<^item> \<open>generateKeywords\<close> (keywords.ts) and \<open>saveCurrentPost\<close> (image.ts);
  \<^item> \<open>shuffle\<close>, the random reordering \<open>sort(() => Math.random() - 0.5)\<close>;
  \<^item> \<open>settle_sources\<close>, the five source adapters running to their end: what their
    promises settle with, and the keyword array as they leave it (an adapter that runs
    sorts it in place with \<open>keywords.sort()\<close>).
\<close>

record 'w env =
  Number_toString :: "rat \<Rightarrow> jstr"
  conversion_error :: exn
  Date_now :: "'w \<Rightarrow> rat"
  rm :: "jstr \<Rightarrow> ('w, unit) io"
  mkdir :: "jstr \<Rightarrow> ('w, unit) io"
  makeRequest :: "jstr \<Rightarrow> nat \<Rightarrow> ('w, jstr) io"
  getRecentPostSnippets :: "nat \<Rightarrow> 'w \<Rightarrow> jstr list \<times> 'w"
  logPost :: "jstr \<Rightarrow> jstr \<Rightarrow> jstr \<Rightarrow> ('w, unit) io"
  saveToFile :: "('w, jstr) io"
  buildContentPrompt :: "businessData \<Rightarrow> PostIdea \<Rightarrow> jstr \<Rightarrow> jstr list \<Rightarrow> exn + jstr"
  buildPostIdeaPrompt :: "businessData \<Rightarrow> TrendData \<Rightarrow> jstr list \<Rightarrow> jstr"
  generateKeywords :: "businessData \<Rightarrow> ('w, jstr list) io"
  saveCurrentPost :: "jstr \<Rightarrow> jstr \<Rightarrow> json \<Rightarrow> ('w, CurrentPost) io"
  shuffle :: "jstr list \<Rightarrow> 'w \<Rightarrow> jstr list \<times> 'w"
  settle_sources :: "jstr list \<Rightarrow> 'w \<Rightarrow> (services \<times> jstr list) \<times> 'w"

record GeneratedContent =
  content_idea :: json
  content_platform :: jstr
  content_text :: jstr
  content_strategy :: jstr

text \<open>
  \<open>cleanupGeneratedContent\<close>: trim, strip the known prefixes (each tried once, in order),
  strip one pair of surrounding double quotes, then the platform rules. For twitter a text
  of more than 280 code units is cut: at the last paragraph break of its first 280 code
  units if that lies beyond 150, else after the last sentence end (\<open>. \<close>, \<open>? \<close> or
  \<open>! \<close>) beyond 150, else at the last space at or before 277 (at 277 when there is none
  beyond index 0), followed by three dots.
\<close>

definition strip_prefix :: "jstr \<Rightarrow> jstr \<Rightarrow> jstr" where
  "strip_prefix cleaned prefix =
     (if startsWith (toLowerCase cleaned) (toLowerCase prefix)
      then trim (substring_from cleaned (int (length prefix))) else cleaned)"

definition prefixes :: "jstr list" where
  "prefixes = [str ''Here's the post:'', str ''Post content:'', str ''Caption:'',
               str ''Tweet:'', str ''Content:'']"

definition strip_quotes :: "jstr \<Rightarrow> jstr" where
  "strip_quotes cleaned =
     (if startsWith cleaned [34] \<and> endsWith cleaned [34]
      then substring cleaned 1 (int (length cleaned) - 1) else cleaned)"

definition truncate_tweet :: "jstr \<Rightarrow> jstr" where
  "truncate_tweet cleaned =
     (let slice = substring cleaned 0 280;
          lastPara = lastIndexOf slice [10, 10]
      in if lastPara > 150 then trim (substring slice 0 lastPara)
         else
           (let lastSentence =
                  max (max (lastIndexOf slice (str ''. '')) (lastIndexOf slice (str ''? '')))
                      (lastIndexOf slice (str ''! ''))
            in if lastSentence > 150 then trim (substring slice 0 (lastSentence + 1))
               else
                 (let lastSpace = lastIndexOf_from slice (str '' '') 277
                  in trim (substring slice 0 (if lastSpace > 0 then lastSpace else 277))
                     @ str ''...'')))"

definition split_hashtags :: "jstr \<Rightarrow> jstr" where
  "split_hashtags cleaned =
     (if \<not> includes_str cleaned [10, 10, 35] \<and> includes_str cleaned [35] then
        (let hashtagIndex = indexOf cleaned [35];
             beforeHashtags = trim (substring cleaned 0 hashtagIndex);
             hashtags = substring_from cleaned hashtagIndex
         in beforeHashtags @ [10, 10] @ hashtags)
      else cleaned)"

definition cleanupGeneratedContent :: "jstr \<Rightarrow> jstr \<Rightarrow> jstr" where
  "cleanupGeneratedContent content platform =
     (let cleaned = strip_quotes (foldl strip_prefix (trim content) prefixes)
      in if platform = str ''twitter'' \<and> length cleaned > 280 then truncate_tweet cleaned
         else if platform = str ''instagram'' then split_hashtags cleaned
         else cleaned)"

text \<open>
  \<open>getFallbackContent\<close>: a fixed text around the idea's concept, per platform; a platform
  without an entry gets the twitter text. (A platform named like a property of
  \<open>Object.prototype\<close>, which the table lookup of the source would find, is not modelled.)
  All three texts are built before one is chosen, and each begins with the conversion of
  the concept to a string, so the function throws when the concept has none. The dash and
  the emoji of the source file are the code units it stores for them.
\<close>

definition getFallbackContent :: "(rat \<Rightarrow> jstr) \<Rightarrow> PostIdea \<Rightarrow> jstr \<Rightarrow> jstr option" where
  "getFallbackContent num idea platform =
     (case ToString num (concept idea) of
        None \<Rightarrow> None
      | Some c \<Rightarrow>
          (let twitter = c @ str '' '' @ [226, 8364, 8221]
                    @ str '' this is worth watching. What's your take? ''
                    @ [240, 376, 8216, 8225] @ str '' #Crypto #AI'';
               instagram = c @ [10, 10]
                    @ str ''This is one to watch closely. Drop your thoughts in the comments ''
                    @ [240, 376, 8216, 8225] @ [10, 10]
                    @ str ''#Crypto #Bitcoin #AITech #Web3 #DeFi'';
               facebook = c @ str '' '' @ [226, 8364, 8221]
                    @ str '' what do you think about this? Share your take in the comments, would love to hear from the community.''
           in Some (if platform = str ''twitter'' then twitter
                    else if platform = str ''instagram'' then instagram
                    else if platform = str ''facebook'' then facebook
                    else twitter)))"

definition strategy_of :: "businessData \<Rightarrow> jstr" where
  "strategy_of bd =
     (case postType bd of Some s \<Rightarrow> if s \<noteq> [] then s else str ''value_first''
      | None \<Rightarrow> str ''value_first'')"

definition generateContentForPlatform ::
  "'w env \<Rightarrow> businessData \<Rightarrow> PostIdea \<Rightarrow> jstr \<Rightarrow> ('w, jstr) io" where
  "generateContentForPlatform env bd idea platform w =
     (let (recentSnippets, w1) = getRecentPostSnippets env 10 w
      in case buildContentPrompt env bd idea platform recentSnippets of
           Inl e \<Rightarrow> (Inl e, w1)
         | Inr prompt \<Rightarrow>
             bind_io (makeRequest env prompt 1000)
               (\<lambda>content.
                  let cleaned = cleanupGeneratedContent content platform
                  in bind_io (logPost env (businessName bd) platform cleaned)
                       (\<lambda>_. return_io cleaned)) w1)"

text \<open>
  \<open>generatePlatformContent\<close>: the two nested \<open>for\<close> loops, each pair inside its own
  \<open>try\<close>/\<open>catch\<close>; \<open>generatedContent\<close> is the array the entries are pushed onto. The
  \<open>catch\<close> block calls \<open>getFallbackContent\<close> outside any \<open>try\<close>: an exception of that
  call ends the loops and the function.
\<close>

definition content_entry ::
  "'w env \<Rightarrow> businessData \<Rightarrow> PostIdea \<Rightarrow> jstr \<Rightarrow> ('w, GeneratedContent) io" where
  "content_entry env bd idea platform w =
     (case generateContentForPlatform env bd idea platform w of
        (Inr content, w') \<Rightarrow>
          (Inr \<lparr>content_idea = concept idea, content_platform = platform,
                content_text = content, content_strategy = strategy_of bd\<rparr>, w')
      | (Inl error, w') \<Rightarrow>
          (case getFallbackContent (Number_toString env) idea platform of
             Some fallback \<Rightarrow>
               (Inr \<lparr>content_idea = concept idea, content_platform = platform,
                     content_text = fallback, content_strategy = strategy_of bd\<rparr>, w')
           | None \<Rightarrow> (Inl (conversion_error env), w')))"

fun platform_loop ::
  "'w env \<Rightarrow> businessData \<Rightarrow> PostIdea \<Rightarrow> jstr list \<Rightarrow> GeneratedContent list
     \<Rightarrow> ('w, GeneratedContent list) io" where
  "platform_loop env bd idea [] generatedContent w = (Inr generatedContent, w)"
| "platform_loop env bd idea (platform # platforms) generatedContent w =
     (case content_entry env bd idea platform w of
        (Inl e, w') \<Rightarrow> (Inl e, w')
      | (Inr entry, w') \<Rightarrow>
          platform_loop env bd idea platforms (generatedContent @ [entry]) w')"

fun idea_loop ::
  "'w env \<Rightarrow> businessData \<Rightarrow> PostIdea list \<Rightarrow> jstr list \<Rightarrow> GeneratedContent list
     \<Rightarrow> ('w, GeneratedContent list) io" where
  "idea_loop env bd [] platforms generatedContent w = (Inr generatedContent, w)"
| "idea_loop env bd (idea # ideas) platforms generatedContent w =
     (case platform_loop env bd idea platforms generatedContent w of
        (Inl e, w') \<Rightarrow> (Inl e, w')
      | (Inr generatedContent', w') \<Rightarrow> idea_loop env bd ideas platforms generatedContent' w')"

definition generatePlatformContent ::
  "'w env \<Rightarrow> businessData \<Rightarrow> PostIdea list \<Rightarrow> jstr list \<Rightarrow> ('w, GeneratedContent list) io"
  where
  "generatePlatformContent env bd selectedIdeas platforms w =
     idea_loop env bd selectedIdeas platforms [] w"

text \<open>
  The reading of "one entry per (idea, platform) pair, in the order of the pairs": the
  entries of a list of pairs, made one after the other, each in the state the one before
  it left.
\<close>

fun entries_for ::
  "'w env \<Rightarrow> businessData \<Rightarrow> (PostIdea \<times> jstr) list \<Rightarrow> ('w, GeneratedContent list) io"
  where
  "entries_for env bd [] w = (Inr [], w)"
| "entries_for env bd ((idea, platform) # pairs) w =
     (case content_entry env bd idea platform w of
        (Inl e, w') \<Rightarrow> (Inl e, w')
      | (Inr entry, w') \<Rightarrow>
          (case entries_for env bd pairs w' of
             (Inl e, w'') \<Rightarrow> (Inl e, w'')
           | (Inr rest, w'') \<Rightarrow> (Inr (entry # rest), w'')))"

section \<open>The pipeline (pipeline.ts)\<close>

record business_config =
  business_name :: jstr
  business_type :: jstr
  business_city :: jstr
  business_industry :: jstr
  business_targetAudience :: jstr
  business_servicesOffered :: jstr
  business_personality :: jstr
  business_postType :: jstr

record output_config =
  output_platforms :: "jstr list"
  output_keywords :: "jstr list"
  keywordsPerRun :: nat
  maxKeywords :: nat
  maxPostIdeas :: nat
  maxContentPerIdea :: nat
  logToFile :: bool

record config =
  config_business :: business_config
  config_sources :: sources_config
  config_output :: output_config

text \<open>The options of a run; an option that is not given is \<open>None\<close>.\<close>

record options =
  opt_platforms :: "jstr list option"
  opt_strategy :: "jstr option"
  opt_keywords :: "jstr list option"
  opt_skipContent :: "bool option"
  opt_quiet :: "bool option"

datatype status = Success | Error

record business_info =
  info_name :: jstr
  info_type :: jstr
  info_city :: jstr
  info_industry :: jstr

text \<open>
  \<open>timestamp\<close> is the time value that \<open>new Date().toISOString()\<close> prints.
\<close>

record meta =
  timestamp :: rat
  processingTimeMs :: rat
  sourcesUsed :: "jstr list"
  keywordCount :: nat
  ideasGenerated :: nat
  contentPieces :: nat

record PipelineResult =
  result_status :: status
  result_business :: business_info
  result_keywords :: "jstr list"
  result_trends :: TrendData
  result_postIdeas :: "PostIdea list"
  result_content :: "GeneratedContent list"
  result_currentPost :: "CurrentPost option"
  result_meta :: meta
  result_error :: "jstr option"

text \<open>\<open>generatePostIdeas\<close> (trends.ts): one request, then the parse.\<close>

definition generatePostIdeas ::
  "'w env \<Rightarrow> businessData \<Rightarrow> TrendData \<Rightarrow> jstr list \<Rightarrow> ('w, PostIdea list) io" where
  "generatePostIdeas env bd trendsData recentPosts =
     (let prompt = buildPostIdeaPrompt env bd trendsData recentPosts
      in bind_io (makeRequest env prompt 1500)
           (\<lambda>content. return_io (parsePostIdeasFromResponse content trendsData)))"

text \<open>The array \<open>sourcesUsed\<close> (\<open>used\<close> below), as the five \<open>if (...) sourcesUsed.push(...)\<close> build it.\<close>

definition sources_used :: "sources_config \<Rightarrow> jstr list" where
  "sources_used sources =
     (if sources_googleTrends sources then [str ''google''] else []) @
     (if sources_xcom sources then [str ''xcom''] else []) @
     (if sources_coingecko sources then [str ''coingecko''] else []) @
     (if sources_reddit_enabled sources then [str ''reddit''] else []) @
     (if sources_news_enabled sources then [str ''news''] else [])"

definition make_businessData :: "config \<Rightarrow> options \<Rightarrow> businessData" where
  "make_businessData cfg options =
     \<lparr>businessName = business_name (config_business cfg),
      businessType = business_type (config_business cfg),
      ukCity = business_city (config_business cfg),
      industry = business_industry (config_business cfg),
      targetAudience = business_targetAudience (config_business cfg),
      servicesOffered = business_servicesOffered (config_business cfg),
      businessPersonality = Some (business_personality (config_business cfg)),
      postType =
        Some (case opt_strategy options of
                Some s \<Rightarrow> if s \<noteq> [] then s else business_postType (config_business cfg)
              | None \<Rightarrow> business_postType (config_business cfg))\<rparr>"

definition business_of :: "businessData \<Rightarrow> business_info" where
  "business_of bd =
     \<lparr>info_name = businessName bd, info_type = businessType bd, info_city = ukCity bd,
      info_industry = industry bd\<rparr>"

text \<open>Step 1: the keywords given, else a random pick from the pool, else generated ones.\<close>

definition select_keywords ::
  "'w env \<Rightarrow> config \<Rightarrow> options \<Rightarrow> businessData \<Rightarrow> ('w, jstr list) io" where
  "select_keywords env cfg options bd =
     (let given = (case opt_keywords options of Some ks \<Rightarrow> ks | None \<Rightarrow> []);
          pool = filter (\<lambda>k. trim k \<noteq> []) (output_keywords (config_output cfg))
      in if length given > 0 then return_io given
         else if length pool > 0 then
           (\<lambda>w. let count = min (keywordsPerRun (config_output cfg)) (length pool);
                    (shuffled, w') = shuffle env pool w
                in (Inr (take count shuffled), w'))
         else generateKeywords env bd)"

text \<open>Step 5: the twitter entry if there is one, else the first.\<close>

definition save_step :: "'w env \<Rightarrow> GeneratedContent list \<Rightarrow> ('w, CurrentPost option) io" where
  "save_step env content =
     (case content of
        [] \<Rightarrow> return_io None
      | first # _ \<Rightarrow>
          (let twitterPost =
                 (case find (\<lambda>c. content_platform c = str ''twitter'') content of
                    Some c \<Rightarrow> c | None \<Rightarrow> first)
           in bind_io (saveCurrentPost env (content_platform twitterPost)
                         (content_text twitterPost) (content_idea twitterPost))
                (\<lambda>currentPost. return_io (Some currentPost))))"

text \<open>
  The body of the \<open>try\<close> block. The calls of the logger that only append to its entries and
  write progress to the console are left out.
\<close>

definition pipeline_steps ::
  "'w env \<Rightarrow> config \<Rightarrow> options \<Rightarrow> businessData \<Rightarrow> jstr list \<Rightarrow> jstr list \<Rightarrow> rat
     \<Rightarrow> ('w, PipelineResult) io" where
  "pipeline_steps env cfg options bd platforms used startTime =
     bind_io (select_keywords env cfg options bd)
       (\<lambda>keywords0.
          bind_io (\<lambda>w. let ((svc, keywords), w') = settle_sources env keywords0 w
                       in (map_sum id (\<lambda>t. (t, keywords))
                             (analyzeTrends (config_sources cfg) svc keywords0 bd), w'))
            (\<lambda>(trendsData, keywords).
               bind_io (\<lambda>w. let (recentPosts, w') = getRecentPostSnippets env 10 w
                            in (Inr recentPosts, w'))
                 (\<lambda>recentPosts.
                    bind_io (generatePostIdeas env bd trendsData recentPosts)
                      (\<lambda>postIdeas.
                         bind_io
                           (if opt_skipContent options \<noteq> Some True then
                              generatePlatformContent env bd
                                (take (maxContentPerIdea (config_output cfg)) postIdeas)
                                platforms
                            else return_io [])
                           (\<lambda>content.
                              bind_io (save_step env content)
                                (\<lambda>currentPost.
                                   bind_io
                                     (if logToFile (config_output cfg) then
                                        bind_io (saveToFile env) (\<lambda>_. return_io ())
                                      else return_io ())
                                     (\<lambda>_ w.
                                        (Inr \<lparr>result_status = Success,
                                               result_business = business_of bd,
                                               result_keywords =
                                                 take (maxKeywords (config_output cfg)) keywords,
                                               result_trends = trendsData,
                                               result_postIdeas =
                                                 take (maxPostIdeas (config_output cfg)) postIdeas,
                                               result_content = content,
                                               result_currentPost = currentPost,
                                               result_meta =
                                                 \<lparr>timestamp = Date_now env w,
                                                  processingTimeMs = Date_now env w - startTime,
                                                  sourcesUsed = used,
                                                  keywordCount = length keywords,
                                                  ideasGenerated = length postIdeas,
                                                  contentPieces = length content\<rparr>,
                                               result_error = None\<rparr>, w))))))))"

text \<open>The result the \<open>catch\<close> block returns for the exception it caught.\<close>

definition error_result :: "businessData \<Rightarrow> jstr list \<Rightarrow> rat \<Rightarrow> rat \<Rightarrow> exn \<Rightarrow> PipelineResult"
  where
  "error_result bd used startTime now e =
     \<lparr>result_status = Error,
      result_business = business_of bd,
      result_keywords = [],
      result_trends = \<lparr>google = [], xcom = [], coingecko = [], reddit = [], news = []\<rparr>,
      result_postIdeas = [],
      result_content = [],
      result_currentPost = None,
      result_meta =
        \<lparr>timestamp = now, processingTimeMs = now - startTime, sourcesUsed = used,
         keywordCount = 0, ideasGenerated = 0, contentPieces = 0\<rparr>,
      result_error = Some (message e)\<rparr>"

text \<open>
  \<open>runPipeline\<close>. The directory \<open>current_post\<close> (under the working directory) is
  removed and made again first, before the \<open>try\<close> block is entered; then come the
  business data, the platforms and \<open>sourcesUsed\<close>, then the \<open>try\<close> with its \<open>catch\<close>.
\<close>

definition currentPostDir :: jstr where
  "currentPostDir = str ''current_post''"

definition runPipeline :: "'w env \<Rightarrow> config \<Rightarrow> options \<Rightarrow> ('w, PipelineResult) io" where
  "runPipeline env cfg options w0 =
     (let startTime = Date_now env w0
      in bind_io (rm env currentPostDir)
           (\<lambda>_. bind_io (mkdir env currentPostDir)
              (\<lambda>_ w.
                 let businessData = make_businessData cfg options;
                     platforms = (case opt_platforms options of
                                    Some ps \<Rightarrow> ps
                                  | None \<Rightarrow> output_platforms (config_output cfg));
                     used = sources_used (config_sources cfg)
                 in case pipeline_steps env cfg options businessData platforms used
                           startTime w of
                      (Inr result, w') \<Rightarrow> (Inr result, w')
                    | (Inl error, w') \<Rightarrow>
                        (Inr (error_result businessData used startTime
                                (Date_now env w') error), w'))) w0)"

section \<open>Concrete runs\<close>

text \<open>
  An environment to run the definitions in. Its state counts the language-model requests
  made so far; every second request fails with the error \<open>makeRequest\<close> throws on a bad
  status, the others answer \<open>Tweet: gm\<close>. All five source adapters reject. Files can be
  written, the clock shows one second per request made, and nothing is shuffled.
  No number is interpolated in these runs.
\<close>

definition request_error :: exn where
  "request_error = Exn (str ''Error'') (str ''DeepSeek API error: 500 - '')"

definition rejecting_services :: services where
  "rejecting_services =
     \<lparr>getAutocompleteSuggestions = (\<lambda>keywords location. Rejected request_error),
      getUKTrends = Rejected request_error,
      getTrendingCoins = Rejected request_error,
      getRelevantDiscussions = (\<lambda>keywords ukCity. Rejected request_error),
      getRelevantArticles = (\<lambda>keywords businessType ukCity. Rejected request_error)\<rparr>"

definition demo_env :: "nat env" where
  "demo_env =
     \<lparr>Number_toString = (\<lambda>x. []),
      conversion_error =
        Exn (str ''TypeError'') (str ''Cannot convert object to primitive value''),
      Date_now = (\<lambda>w. 1000 * of_nat w),
      rm = (\<lambda>path w. (Inr (), w)),
      mkdir = (\<lambda>path w. (Inr (), w)),
      makeRequest = (\<lambda>prompt maxTokens w.
        (if even w then Inr (str ''Tweet: gm'') else Inl request_error, Suc w)),
      getRecentPostSnippets = (\<lambda>limit w. ([], w)),
      logPost = (\<lambda>businessName platform postText w. (Inr (), w)),
      saveToFile = (\<lambda>w. (Inr (str ''process_log.txt''), w)),
      buildContentPrompt = (\<lambda>bd idea platform recentSnippets. Inr platform),
      buildPostIdeaPrompt = (\<lambda>bd trendsData recentPosts. []),
      generateKeywords = (\<lambda>bd w. (Inr [], w)),
      saveCurrentPost = (\<lambda>platform postText idea w.
        (Inr \<lparr>post_platform = platform, post_text = postText, post_idea = idea,
              post_timestamp = 1000 * of_nat w, imagePath = None\<rparr>, w)),
      shuffle = (\<lambda>pool w. (pool, w)),
      settle_sources = (\<lambda>keywords w. ((rejecting_services, keywords), w))\<rparr>"

text \<open>The configuration of config.example.ts, with one keyword in the pool.\<close>

definition demo_config :: config where
  "demo_config =
     \<lparr>config_business =
        \<lparr>business_name = str ''YourName'', business_type = str ''Crypto Influencer'',
         business_city = str ''Global'', business_industry = str ''Finance'',
         business_targetAudience = str ''Your target audience'',
         business_servicesOffered = str ''Your services'',
         business_personality = str ''Your personality'',
         business_postType = str ''value_first''\<rparr>,
      config_sources =
        \<lparr>sources_googleTrends = True, sources_xcom = False, sources_coingecko = True,
         sources_reddit_enabled = False, sources_news_enabled = True\<rparr>,
      config_output =
        \<lparr>output_platforms = [str ''twitter'', str ''instagram'', str ''facebook''],
         output_keywords = [str ''bitcoin''], keywordsPerRun = 6, maxKeywords = 12,
         maxPostIdeas = 3, maxContentPerIdea = 1, logToFile = True\<rparr>\<rparr>"

definition no_options :: options where
  "no_options =
     \<lparr>opt_platforms = None, opt_strategy = None, opt_keywords = None,
      opt_skipContent = None, opt_quiet = None\<rparr>"

definition demo_business :: businessData where
  "demo_business = make_businessData demo_config no_options"

definition empty_trends :: TrendData where
  "empty_trends = \<lparr>google = [], xcom = [], coingecko = [], reddit = [], news = []\<rparr>"

definition idea_with_concept :: "jstr \<Rightarrow> PostIdea" where
  "idea_with_concept c =
     \<lparr>idea_id = str ''idea_1'', concept = JStr c,
      trend_source = JStr (str ''General trend analysis''), relevance_score = JNum (1 / 2),
      business_benefit = None\<rparr>"


section \<open>The bound of the JSON parser\<close>

lemma length_skip_ws: "length (skip_ws s) \<le> length s"
  by (simp add: skip_ws_def length_dropWhile_le)

lemma skip_ws_Cons: "skip_ws s = c # cs \<Longrightarrow> length cs < length s"
  using length_skip_ws [of s] by simp

lemma parse_chars_shorter: "parse_chars s = Some (xs, r) \<Longrightarrow> length r < length s"
proof (induction s arbitrary: xs r rule: parse_chars.induct)
  case 1
  then show ?case by simp
next
  case (2 c cs)
  show ?case
  proof (cases "c = 34")
    case True
    then show ?thesis using "2.prems" by simp
  next
    case False
    note c34 = this
    show ?thesis
    proof (cases "c = 92")
      case True
      then obtain e cs' where cs: "cs = e # cs'"
        using "2.prems" c34 by (cases cs) auto
      show ?thesis
      proof (cases "e = 117")
        case True
        then obtain u ys where "hex4 cs' = Some u" "parse_chars (drop 4 cs') = Some (ys, r)"
          using "2.prems" c34 \<open>c = 92\<close> cs by (auto split: option.splits)
        then have "length r < length (drop 4 cs')"
          using "2.IH"(1) [OF c34 \<open>c = 92\<close> cs True] by blast
        then show ?thesis using cs by simp
      next
        case False
        then obtain x ys where "escape_char e = Some x" "parse_chars cs' = Some (ys, r)"
          using "2.prems" c34 \<open>c = 92\<close> cs by (auto split: option.splits)
        then have "length r < length cs'"
          using "2.IH"(2) [OF c34 \<open>c = 92\<close> cs False] by blast
        then show ?thesis using cs by simp
      qed
    next
      case False
      then obtain ys where "\<not> c < 32" "parse_chars cs = Some (ys, r)"
        using "2.prems" c34 by (auto split: if_splits)
      then have "length r < length cs"
        using "2.IH"(3) [OF c34 False] by blast
      then show ?thesis by simp
    qed
  qed
qed

lemma dropWhile_shorter: "takeWhile P xs \<noteq> [] \<Longrightarrow> length (dropWhile P xs) < length xs"
  by (cases xs) (auto simp: length_dropWhile_le le_imp_less_Suc split: if_splits)


lemma parse_fraction_shorter: "parse_fraction s = Some (fp, r) \<Longrightarrow> length r \<le> length s"
proof -
  assume a: "parse_fraction s = Some (fp, r)"
  show ?thesis
  proof (cases s)
    case Nil
    then show ?thesis using a by (simp add: parse_fraction_def)
  next
    case (Cons c cs)
    have "length (dropWhile is_digit cs) \<le> length cs" by (rule length_dropWhile_le)
    then show ?thesis
      using a Cons by (auto simp: parse_fraction_def Let_def split: if_splits)
  qed
qed

lemma parse_sign_shorter: "parse_sign s = (b, r) \<Longrightarrow> length r \<le> length s"
  by (cases s) (auto simp: parse_sign_def split: if_splits)

lemma parse_exponent_shorter: "parse_exponent s = Some (e, r) \<Longrightarrow> length r \<le> length s"
proof -
  assume a: "parse_exponent s = Some (e, r)"
  show ?thesis
  proof (cases s)
    case Nil
    then show ?thesis using a by (simp add: parse_exponent_def)
  next
    case (Cons c cs)
    obtain b cs1 where sg: "parse_sign cs = (b, cs1)" by (cases "parse_sign cs")
    then have "length cs1 \<le> length cs" by (rule parse_sign_shorter)
    moreover have "length (dropWhile is_digit cs1) \<le> length cs1" by (rule length_dropWhile_le)
    ultimately show ?thesis
      using a Cons sg by (auto simp: parse_exponent_def Let_def split: if_splits)
  qed
qed

lemma parse_number_shorter:
  assumes "parse_number s = Some (x, r)"
  shows "length r < length s"
proof -
  obtain neg s1 where sg:
    "(case s of c # cs \<Rightarrow> if c = 45 then (True, cs) else (False, s) | [] \<Rightarrow> (False, s)) = (neg, s1)"
    by (cases "(case s of c # cs \<Rightarrow> if c = 45 then (True, cs) else (False, s) | [] \<Rightarrow> (False, s))")
  then have l1: "length s1 \<le> length s" by (auto split: list.splits if_splits)
  from assms sg have ip: "takeWhile is_digit s1 \<noteq> []"
    by (auto simp: parse_number_def Let_def split: if_splits)
  then have l2: "length (dropWhile is_digit s1) < length s1" by (rule dropWhile_shorter)
  from assms sg ip obtain fp s3 e where
    f: "parse_fraction (dropWhile is_digit s1) = Some (fp, s3)" and
    x: "parse_exponent s3 = Some (e, r)"
    by (auto simp: parse_number_def Let_def split: if_splits option.splits)
  from f have "length s3 \<le> length (dropWhile is_digit s1)" by (rule parse_fraction_shorter)
  moreover from x have "length r \<le> length s3" by (rule parse_exponent_shorter)
  ultimately show ?thesis using l1 l2 by simp
qed

lemma parse_scalar_shorter:
  assumes "parse_scalar s = Some (v, r)"
  shows "length r < length s"
proof (cases s)
  case Nil
  then show ?thesis using assms by (simp add: parse_scalar_def)
next
  case (Cons c cs)
  consider (string) xs where "c = 34" "parse_chars cs = Some (xs, r)"
    | (literal) "length r < length s"
    | (number) x where "parse_number s = Some (x, r)"
    using assms Cons by (auto simp: parse_scalar_def split: if_splits)
  then show ?thesis
  proof cases
    case string
    then show ?thesis using parse_chars_shorter [of cs xs r] Cons by simp
  next
    case literal
    then show ?thesis .
  next
    case number
    then show ?thesis by (rule parse_number_shorter)
  qed
qed


lemma enoughI:
  assumes "length r < length s"
      and "\<And>m. length s \<le> Suc m + length r \<Longrightarrow> parser (Suc m) s = Some (x, r)"
  shows "enough parser s x r"
  unfolding enough_def
proof (intro conjI allI impI)
  show "length r < length s" by (rule assms(1))
next
  fix m assume a: "length s \<le> m + length r"
  with assms(1) obtain m' where "m = Suc m'" by (cases m) auto
  with a assms(2) show "parser m s = Some (x, r)" by simp
qed

lemma enough_shorter: "enough parser s x r \<Longrightarrow> length r < length s"
  by (simp add: enough_def)

lemma enough_apply: "enough parser s x r \<Longrightarrow> length s \<le> m + length r \<Longrightarrow> parser m s = Some (x, r)"
  by (simp add: enough_def)

lemma parse_value_enough:
  assumes elems: "\<And>s vs r. parse_elements n s = Some (vs, r) \<Longrightarrow> enough parse_elements s vs r"
      and membs: "\<And>s ms r. parse_members n s = Some (ms, r) \<Longrightarrow> enough parse_members s ms r"
      and pv: "parse_value (Suc n) s = Some (v, r)"
  shows "enough parse_value s v r"
proof -
  from pv obtain c cs where sk: "skip_ws s = c # cs"
    by (cases "skip_ws s") auto
  then have lcs: "length cs < length s" by (rule skip_ws_Cons)
  consider (arr0) ds where "c = 91" "skip_ws cs = 93 # ds" "v = JArr []" "r = ds"
    | (arr) d ds vs where "c = 91" "skip_ws cs = d # ds" "d \<noteq> 93"
        "parse_elements n cs = Some (vs, r)" "v = JArr vs"
    | (obj0) ds where "c = 123" "skip_ws cs = 125 # ds" "v = JObj []" "r = ds"
    | (obj) d ds ms where "c = 123" "skip_ws cs = d # ds" "d \<noteq> 125"
        "parse_members n cs = Some (ms, r)" "v = JObj ms"
    | (scalar) "c \<noteq> 91" "c \<noteq> 123" "parse_scalar (c # cs) = Some (v, r)"
    using pv sk by (auto split: list.splits if_splits)
  then show ?thesis
  proof cases
    case arr0
    have "length r < length cs" using arr0 skip_ws_Cons [of cs 93 r] by simp
    then have "length r < length s" using lcs by simp
    then show ?thesis using sk arr0 by (intro enoughI) simp_all
  next
    case arr
    from elems [OF arr(4)] have e: "enough parse_elements cs vs r" .
    then have "length r < length cs" by (rule enough_shorter)
    then have l: "length r < length s" using lcs by simp
    show ?thesis
    proof (rule enoughI [OF l])
      fix m assume "length s \<le> Suc m + length r"
      then have "length cs \<le> m + length r" using lcs by simp
      then have "parse_elements m cs = Some (vs, r)" using e by (rule enough_apply [rotated])
      then show "parse_value (Suc m) s = Some (v, r)" using sk arr by simp
    qed
  next
    case obj0
    have "length r < length cs" using obj0 skip_ws_Cons [of cs 125 r] by simp
    then have "length r < length s" using lcs by simp
    then show ?thesis using sk obj0 by (intro enoughI) simp_all
  next
    case obj
    from membs [OF obj(4)] have e: "enough parse_members cs ms r" .
    then have "length r < length cs" by (rule enough_shorter)
    then have l: "length r < length s" using lcs by simp
    show ?thesis
    proof (rule enoughI [OF l])
      fix m assume "length s \<le> Suc m + length r"
      then have "length cs \<le> m + length r" using lcs by simp
      then have "parse_members m cs = Some (ms, r)" using e by (rule enough_apply [rotated])
      then show "parse_value (Suc m) s = Some (v, r)" using sk obj by simp
    qed
  next
    case scalar
    then have "length r < length (c # cs)" using parse_scalar_shorter by blast
    then have "length r < length s" using sk length_skip_ws [of s] by simp
    then show ?thesis using sk scalar by (intro enoughI) simp_all
  qed
qed


lemma parse_elements_enough:
  assumes vals: "\<And>s v r. parse_value n s = Some (v, r) \<Longrightarrow> enough parse_value s v r"
      and elems: "\<And>s vs r. parse_elements n s = Some (vs, r) \<Longrightarrow> enough parse_elements s vs r"
      and pe: "parse_elements (Suc n) s = Some (vs, r)"
  shows "enough parse_elements s vs r"
proof -
  from pe obtain v r1 where pv: "parse_value n s = Some (v, r1)"
    by (cases "parse_value n s") auto
  from vals [OF pv] have ev: "enough parse_value s v r1" .
  then have l1: "length r1 < length s" by (rule enough_shorter)
  from pe pv obtain c cs where sk: "skip_ws r1 = c # cs"
    by (cases "skip_ws r1") auto
  then have lcs: "length cs < length r1" by (rule skip_ws_Cons)
  consider (last) "c = 93" "vs = [v]" "r = cs"
    | (more) rest where "c = 44" "parse_elements n cs = Some (rest, r)" "vs = v # rest"
    using pe pv sk by (auto split: if_splits)
  then show ?thesis
  proof cases
    case last
    have l: "length r < length s" using last lcs l1 by simp
    show ?thesis
    proof (rule enoughI [OF l])
      fix m assume "length s \<le> Suc m + length r"
      then have "length s \<le> m + length r1" using last lcs by simp
      then have "parse_value m s = Some (v, r1)" using ev by (rule enough_apply [rotated])
      then show "parse_elements (Suc m) s = Some (vs, r)" using sk last by simp
    qed
  next
    case more
    from elems [OF more(2)] have ee: "enough parse_elements cs rest r" .
    then have lr: "length r < length cs" by (rule enough_shorter)
    then have l: "length r < length s" using lcs l1 by simp
    show ?thesis
    proof (rule enoughI [OF l])
      fix m assume a: "length s \<le> Suc m + length r"
      then have "length s \<le> m + length r1" using lr lcs by simp
      then have 1: "parse_value m s = Some (v, r1)" using ev by (rule enough_apply [rotated])
      from a have "length cs \<le> m + length r" using lcs l1 by simp
      then have 2: "parse_elements m cs = Some (rest, r)" using ee by (rule enough_apply [rotated])
      show "parse_elements (Suc m) s = Some (vs, r)" using 1 2 sk more by simp
    qed
  qed
qed

lemma parse_members_enough:
  assumes vals: "\<And>s v r. parse_value n s = Some (v, r) \<Longrightarrow> enough parse_value s v r"
      and membs: "\<And>s ms r. parse_members n s = Some (ms, r) \<Longrightarrow> enough parse_members s ms r"
      and pm: "parse_members (Suc n) s = Some (ms, r)"
  shows "enough parse_members s ms r"
proof -
  from pm obtain q qs where sq: "skip_ws s = q # qs"
    by (cases "skip_ws s") auto
  then have lqs: "length qs < length s" by (rule skip_ws_Cons)
  from pm sq have q: "q = 34" by (auto split: if_splits)
  from pm sq q obtain k r0 where pc: "parse_chars qs = Some (k, r0)"
    by (cases "parse_chars qs") auto
  then have l0: "length r0 < length qs" by (rule parse_chars_shorter)
  from pm sq q pc obtain c0 r1 where s0: "skip_ws r0 = c0 # r1"
    by (cases "skip_ws r0") auto
  then have l1: "length r1 < length r0" by (rule skip_ws_Cons)
  from pm sq q pc s0 have c0: "c0 = 58" by (auto split: if_splits)
  from pm sq q pc s0 c0 obtain v rv where pv: "parse_value n r1 = Some (v, rv)"
    by (cases "parse_value n r1") auto
  from vals [OF pv] have ev: "enough parse_value r1 v rv" .
  then have lv: "length rv < length r1" by (rule enough_shorter)
  from pm sq q pc s0 c0 pv obtain c cs where sk: "skip_ws rv = c # cs"
    by (cases "skip_ws rv") auto
  then have lcs: "length cs < length rv" by (rule skip_ws_Cons)
  consider (last) "c = 125" "ms = [(k, v)]" "r = cs"
    | (more) rest where "c = 44" "parse_members n cs = Some (rest, r)" "ms = (k, v) # rest"
    using pm sq q pc s0 c0 pv sk by (auto split: if_splits)
  then show ?thesis
  proof cases
    case last
    have l: "length r < length s" using last lcs lv l1 l0 lqs by simp
    show ?thesis
    proof (rule enoughI [OF l])
      fix m assume "length s \<le> Suc m + length r"
      then have "length r1 \<le> m + length rv" using last lcs l1 l0 lqs by simp
      then have "parse_value m r1 = Some (v, rv)" using ev by (rule enough_apply [rotated])
      then show "parse_members (Suc m) s = Some (ms, r)" using sq q pc s0 c0 sk last by simp
    qed
  next
    case more
    from membs [OF more(2)] have em: "enough parse_members cs rest r" .
    then have lr: "length r < length cs" by (rule enough_shorter)
    then have l: "length r < length s" using lcs lv l1 l0 lqs by simp
    show ?thesis
    proof (rule enoughI [OF l])
      fix m assume a: "length s \<le> Suc m + length r"
      then have "length r1 \<le> m + length rv" using lr lcs l1 l0 lqs by simp
      then have 1: "parse_value m r1 = Some (v, rv)" using ev by (rule enough_apply [rotated])
      from a have "length cs \<le> m + length r" using lcs lv l1 l0 lqs by simp
      then have 2: "parse_members m cs = Some (rest, r)" using em by (rule enough_apply [rotated])
      show "parse_members (Suc m) s = Some (ms, r)" using 1 2 sq q pc s0 c0 sk more by simp
    qed
  qed
qed

lemma parsers_enough:
  "(\<forall>s v r. parse_value n s = Some (v, r) \<longrightarrow> enough parse_value s v r) \<and>
   (\<forall>s vs r. parse_elements n s = Some (vs, r) \<longrightarrow> enough parse_elements s vs r) \<and>
   (\<forall>s ms r. parse_members n s = Some (ms, r) \<longrightarrow> enough parse_members s ms r)"
proof (induction n)
  case 0
  then show ?case by simp
next
  case (Suc n)
  then have v: "\<And>s v r. parse_value n s = Some (v, r) \<Longrightarrow> enough parse_value s v r"
    and e: "\<And>s vs r. parse_elements n s = Some (vs, r) \<Longrightarrow> enough parse_elements s vs r"
    and m: "\<And>s ms r. parse_members n s = Some (ms, r) \<Longrightarrow> enough parse_members s ms r"
    by blast+
  show ?case
    using parse_value_enough [OF e m] parse_elements_enough [OF v e] parse_members_enough [OF v m]
    by blast
qed

text \<open>
  The bound of \<open>JSON_parse\<close> never decides the result: a text that some bound parses to
  the end is parsed by \<open>JSON_parse\<close>, to the same value.
\<close>

lemma JSON_parse_bound:
  "JSON_parse s = Some v \<longleftrightarrow> (\<exists>n r. parse_value n s = Some (v, r) \<and> skip_ws r = [])"
proof
  assume "JSON_parse s = Some v"
  then obtain r where "parse_value (Suc (length s)) s = Some (v, r)" "skip_ws r = []"
    by (auto simp: JSON_parse_def simp del: parse_value.simps split: option.splits if_splits)
  then show "\<exists>n r. parse_value n s = Some (v, r) \<and> skip_ws r = []"
    by blast
next
  assume "\<exists>n r. parse_value n s = Some (v, r) \<and> skip_ws r = []"
  then obtain n r where p: "parse_value n s = Some (v, r)" and w: "skip_ws r = []" by blast
  from p have "enough parse_value s v r" using parsers_enough [of n] by blast
  then have "parse_value (Suc (length s)) s = Some (v, r)"
    by (rule enough_apply) simp
  then show "JSON_parse s = Some v" using w by (simp add: JSON_parse_def)
qed

section \<open>Properties of the cache\<close>

lemma cache_get_fresh:
  "c key = Some e \<Longrightarrow> now < expires e \<Longrightarrow> cache_get c now key = (Some (data e), c)"
  by (simp add: cache_get_def)

lemma cache_get_expired:
  "c key = Some e \<Longrightarrow> expires e \<le> now \<Longrightarrow> cache_get c now key = (None, c(key := None))"
  by (simp add: cache_get_def)




lemma sort_keys_perm:
  "mset qs = mset ps \<Longrightarrow> sort (Object_keys qs) = sort (Object_keys ps)"
proof -
  assume "mset qs = mset ps"
  then have "mset (map fst qs) = mset (map fst ps)" by simp
  then show ?thesis
    unfolding Object_keys_def by (intro properties_for_sort) simp_all
qed

lemma map_of_perm:
  assumes "distinct (map fst ps)" "mset qs = mset ps"
  shows "map_of qs = map_of ps"
proof -
  have "mset (map fst qs) = mset (map fst ps)" using assms(2) by simp
  then have "distinct (map fst qs)"
    using assms(1) mset_eq_imp_distinct_iff by blast
  moreover have "set qs = set ps" using assms(2) by (rule mset_eq_setD)
  ultimately show ?thesis using assms(1) by (simp add: map_of_inject_set)
qed

text \<open>
  C9: \<open>generateKey\<close> does not depend on the order in which the parameters were put into
  the object. Two objects with the same (name, value) pairs, listed in any two orders, get
  the same key for the same prefix; calling it twice on the same object gives the same key,
  since it is a function.
\<close>

theorem generateKey_permutation:
  assumes "distinct (map fst ps)" "mset qs = mset ps"
  shows "generateKey toString prefix qs = generateKey toString prefix ps"
  using sort_keys_perm [OF assms(2)] map_of_perm [OF assms]
  by (simp add: generateKey_def prop_string_def)

theorem generateKey_permutation_witness:
  "distinct (map fst [(str ''keywords'', str ''btc,eth''), (str ''location'', str ''Global'')]) \<and>
   mset [(str ''location'', str ''Global''), (str ''keywords'', str ''btc,eth'')] =
     mset [(str ''keywords'', str ''btc,eth''), (str ''location'', str ''Global'')] \<and>
   generateKey id (str ''google-trends'')
     [(str ''location'', str ''Global''), (str ''keywords'', str ''btc,eth'')] =
   generateKey id (str ''google-trends'')
     [(str ''keywords'', str ''btc,eth''), (str ''location'', str ''Global'')]"
proof -
  have d: "distinct (map fst [(str ''keywords'', str ''btc,eth''), (str ''location'', str ''Global'')])"
    by simp
  have m: "mset [(str ''location'', str ''Global''), (str ''keywords'', str ''btc,eth'')] =
     mset [(str ''keywords'', str ''btc,eth''), (str ''location'', str ''Global'')]"
    by simp
  show ?thesis using d m generateKey_permutation [OF d m, of id "str ''google-trends''"] by blast
qed

text \<open>
  C10: key derivation is not injective. The objects \<open>{a: "1|b:2"}\<close> and
  \<open>{a: "1", b: "2"}\<close> are different parameter mappings and get the same key for every
  prefix, because names and values are joined with \<open>:\<close> and \<open>|\<close> unescaped.
\<close>

theorem generateKey_not_injective:
  "[(str ''a'', str ''1|b:2'')] \<noteq> [(str ''a'', str ''1''), (str ''b'', str ''2'')] \<and>
   map_of [(str ''a'', str ''1|b:2'')] \<noteq> map_of [(str ''a'', str ''1''), (str ''b'', str ''2'')] \<and>
   generateKey id prefix [(str ''a'', str ''1|b:2'')] =
     generateKey id prefix [(str ''a'', str ''1''), (str ''b'', str ''2'')]"
proof -
  have "map_of [(str ''a'', str ''1|b:2'')] (str ''b'') \<noteq>
        map_of [(str ''a'', str ''1''), (str ''b'', str ''2'')] (str ''b'')"
    by simp
  then have "map_of [(str ''a'', str ''1|b:2'')] \<noteq> map_of [(str ''a'', str ''1''), (str ''b'', str ''2'')]"
    by metis
  then show ?thesis
    by (simp add: generateKey_def Object_keys_def prop_string_def)
qed

section \<open>Properties of the trend aggregator\<close>

text \<open>
  C1: whatever the five adapters settle with, and whichever of the three switches are on,
  \<open>analyzeTrends\<close> returns (its promise fulfils) with a snapshot in which a source's list
  is the adapter's fulfilled value when the adapter was called and fulfilled, and the empty
  list when the adapter rejected or the source is switched off.
\<close>

theorem analyzeTrends_settles:
  "\<exists>td. analyzeTrends sources svc keywords bd = Inr td \<and>
     google td =
       (if sources_googleTrends sources
        then (case getAutocompleteSuggestions svc keywords (ukCity bd) of
                Fulfilled v \<Rightarrow> v | Rejected e \<Rightarrow> [])
        else []) \<and>
     xcom td =
       (if sources_xcom sources
        then (case getUKTrends svc of Fulfilled v \<Rightarrow> v | Rejected e \<Rightarrow> [])
        else []) \<and>
     coingecko td =
       (if sources_coingecko sources
        then (case getTrendingCoins svc of Fulfilled v \<Rightarrow> v | Rejected e \<Rightarrow> [])
        else []) \<and>
     reddit td =
       (case getRelevantDiscussions svc keywords (ukCity bd) of
          Fulfilled v \<Rightarrow> v | Rejected e \<Rightarrow> []) \<and>
     news td =
       (case getRelevantArticles svc keywords (businessType bd) (ukCity bd) of
          Fulfilled v \<Rightarrow> v | Rejected e \<Rightarrow> [])"
  by (simp add: analyzeTrends_def settled_or_empty_def Let_def)

theorem analyzeTrends_settles_witness:
  "analyzeTrends (config_sources demo_config)
     (rejecting_services\<lparr>getUKTrends := Fulfilled [str ''#BTC''],
                          getTrendingCoins := Fulfilled []\<rparr>)
     [str ''bitcoin''] demo_business = Inr empty_trends"
  using analyzeTrends_settles [of "config_sources demo_config"
      "rejecting_services\<lparr>getUKTrends := Fulfilled [str ''#BTC''],
                           getTrendingCoins := Fulfilled []\<rparr>"
      "[str ''bitcoin'']" demo_business]
  by (auto simp: demo_config_def rejecting_services_def empty_trends_def)

section \<open>Properties of the idea generator\<close>





lemma mset_insert_sorted: "mset (insert_sorted cmp x ys) = add_mset x (mset ys)"
  by (induction ys) auto

lemma mset_Array_sort: "mset (Array_sort cmp xs) = mset xs"
  by (induction xs) (auto simp: Array_sort_def mset_insert_sorted)












lemma well_typed_fallback_idea: "well_typed (fallback_idea i c t r)"
  by (simp add: well_typed_def fallback_idea_def is_string_def is_number_def)

lemma well_typed_source: "well_typed p \<Longrightarrow> well_typed (p\<lparr>trend_source := JStr s\<rparr>)"
  by (simp add: well_typed_def is_string_def)

lemma well_typed_update:
  assumes "list_all well_typed ps"
  shows "list_all well_typed (ps[k := (ps ! k)\<lparr>trend_source := JStr s\<rparr>])"
proof (cases "k < length ps")
  case True
  then have "well_typed (ps ! k)" using assms by (simp add: list_all_length)
  then have "well_typed ((ps ! k)\<lparr>trend_source := JStr s\<rparr>)" by (rule well_typed_source)
  then show ?thesis using assms True by (simp add: list_all_length nth_list_update)
next
  case False
  then have "ps[k := (ps ! k)\<lparr>trend_source := JStr s\<rparr>] = ps"
    by (simp add: list_update_beyond)
  then show ?thesis using assms by simp
qed

lemma well_typed_upgrade:
  "list_all well_typed ps \<Longrightarrow>
   list_all well_typed
     (case xs of [] \<Rightarrow> ps | a # r \<Rightarrow> ps[k := (ps ! k)\<lparr>trend_source := JStr (f a)\<rparr>])"
  by (cases xs) (simp_all add: well_typed_update)

lemma fallback_well_typed: "list_all well_typed (getFallbackPostIdeas t)"
  unfolding getFallbackPostIdeas_def Let_def
  by (intro well_typed_upgrade) (simp add: well_typed_fallback_idea)


text \<open>The defaults, on an element without any of the four fields.\<close>

lemma make_idea_defaults:
  "make_idea (JObj []) i =
     Some \<lparr>idea_id = str ''idea_'' @ decimal (i + 1),
           concept = JStr (str ''Business idea '' @ decimal (i + 1)),
           trend_source = JStr (str ''General trend analysis''),
           relevance_score = JNum (1 / 2),
           business_benefit = Some (JStr (str ''Provides engagement opportunity''))\<rparr>"
  by (simp add: make_idea_def get_property_def or_default_def)










section \<open>Properties of the content renderer\<close>

lemma getFallbackContent_string:
  "is_string (concept idea) \<Longrightarrow> \<exists>fallback. getFallbackContent num idea platform = Some fallback"
  by (cases "concept idea") (simp_all add: is_string_def getFallbackContent_def Let_def)

lemma content_entry_string:
  assumes "is_string (concept idea)"
  shows "\<exists>entry w'. content_entry env bd idea platform w = (Inr entry, w') \<and>
           content_idea entry = concept idea \<and> content_platform entry = platform"
proof -
  obtain fallback where f: "getFallbackContent (Number_toString env) idea platform = Some fallback"
    using getFallbackContent_string [OF assms] by blast
  obtain res w' where g: "generateContentForPlatform env bd idea platform w = (res, w')"
    by (cases "generateContentForPlatform env bd idea platform w")
  show ?thesis
    by (cases res) (simp_all add: content_entry_def f g)
qed

lemma entries_for_append:
  "entries_for env bd (xs @ ys) w =
     (case entries_for env bd xs w of
        (Inl e, w') \<Rightarrow> (Inl e, w')
      | (Inr a, w') \<Rightarrow>
          (case entries_for env bd ys w' of
             (Inl e, w'') \<Rightarrow> (Inl e, w'')
           | (Inr b, w'') \<Rightarrow> (Inr (a @ b), w'')))"
proof (induction xs arbitrary: w)
  case Nil
  then show ?case by (simp split: prod.splits sum.splits)
next
  case (Cons p xs)
  obtain idea platform where p: "p = (idea, platform)" by (cases p)
  show ?case
    unfolding p by (simp add: Cons.IH split: prod.splits sum.splits)
qed

lemma platform_loop_entries:
  "platform_loop env bd idea platforms acc w =
     (case entries_for env bd (map (Pair idea) platforms) w of
        (Inl e, w') \<Rightarrow> (Inl e, w')
      | (Inr entries, w') \<Rightarrow> (Inr (acc @ entries), w'))"
proof (induction platforms arbitrary: acc w)
  case Nil
  then show ?case by simp
next
  case (Cons platform platforms)
  show ?case
    by (simp add: Cons.IH split: prod.splits sum.splits)
qed

lemma idea_loop_entries:
  "idea_loop env bd ideas platforms acc w =
     (case entries_for env bd (List.product ideas platforms) w of
        (Inl e, w') \<Rightarrow> (Inl e, w')
      | (Inr entries, w') \<Rightarrow> (Inr (acc @ entries), w'))"
proof (induction ideas arbitrary: acc w)
  case Nil
  then show ?case by simp
next
  case (Cons idea ideas)
  show ?case
    by (simp add: platform_loop_entries Cons.IH entries_for_append
        split: prod.splits sum.splits)
qed

lemma generatePlatformContent_entries:
  "generatePlatformContent env bd ideas platforms w =
     entries_for env bd (List.product ideas platforms) w"
  by (simp add: generatePlatformContent_def idea_loop_entries split: prod.splits sum.splits)

lemma entries_for_strings:
  assumes "\<forall>(idea, platform)\<in>set pairs. is_string (concept idea)"
  shows "\<exists>generated w'. entries_for env bd pairs w = (Inr generated, w') \<and>
           length generated = length pairs \<and>
           map (\<lambda>c. (content_idea c, content_platform c)) generated =
             map (\<lambda>(idea, platform). (concept idea, platform)) pairs"
  using assms
proof (induction pairs arbitrary: w)
  case Nil
  then show ?case by simp
next
  case (Cons p pairs)
  obtain idea platform where p: "p = (idea, platform)" by (cases p)
  then have "is_string (concept idea)" using Cons.prems by simp
  from content_entry_string [OF this, of env bd platform w]
  obtain entry w1 where e: "content_entry env bd idea platform w = (Inr entry, w1)"
    "content_idea entry = concept idea" "content_platform entry = platform"
    by blast
  from Cons.prems have "\<forall>(idea, platform)\<in>set pairs. is_string (concept idea)" by simp
  from Cons.IH [OF this, of w1]
  obtain rest w2 where r: "entries_for env bd pairs w1 = (Inr rest, w2)"
    "length rest = length pairs"
    "map (\<lambda>c. (content_idea c, content_platform c)) rest =
       map (\<lambda>(idea, platform). (concept idea, platform)) pairs"
    by blast
  show ?case using p e r by simp
qed

lemma makeRequest_throws:
  assumes "buildContentPrompt env bd idea platform (fst (getRecentPostSnippets env 10 w)) =
             Inr prompt"
      and "makeRequest env prompt 1000 (snd (getRecentPostSnippets env 10 w)) = (Inl e, w')"
  shows "generateContentForPlatform env bd idea platform w = (Inl e, w')"
  using assms
  by (simp add: generateContentForPlatform_def bind_io_def Let_def case_prod_beta)

lemma generatePlatformContent_strings:
  assumes "\<forall>idea\<in>set ideas. is_string (concept idea)"
  shows "\<exists>generated w'. generatePlatformContent env bd ideas platforms w = (Inr generated, w')"
proof -
  have "\<forall>(idea, platform)\<in>set (List.product ideas platforms). is_string (concept idea)"
    using assms by auto
  from entries_for_strings [OF this, of env bd w] show ?thesis
    by (auto simp: generatePlatformContent_entries)
qed



text \<open>
  An idea whose concept is not a string can end the function: here the concept is an
  object with a member \<open>toString\<close>, the model call fails, and the fallback text cannot be
  built either.
\<close>

lemma generatePlatformContent_conversion_error:
  "generatePlatformContent demo_env demo_business
     [(idea_with_concept [])\<lparr>concept := JObj [(str ''toString'', JNum 1)]\<rparr>] [str ''twitter''] 1 =
     (Inl (conversion_error demo_env), 2)"
  by (simp add: generatePlatformContent_def content_entry_def generateContentForPlatform_def
      bind_io_def demo_env_def getFallbackContent_def idea_with_concept_def Let_def)

text \<open>
  The answer of the model, once cleaned up, does keep to the limit of twitter.
\<close>

lemma length_trim_le: "length (trim s) \<le> length s"
proof -
  have "length (dropWhile is_space (rev (dropWhile is_space s))) \<le> length (rev (dropWhile is_space s))"
    by (rule length_dropWhile_le)
  also have "\<dots> \<le> length s" by (simp add: length_dropWhile_le)
  finally show ?thesis by (simp add: trim_def)
qed

lemma length_take_drop_le: "length (take n (drop m s)) \<le> length s"
  by simp

lemma length_substring_le: "length (substring s a b) \<le> length s"
  unfolding substring_def Let_def by (rule length_take_drop_le)

lemma length_substring_0: "length (substring s 0 b) \<le> nat b"
  unfolding substring_def Let_def clamp_index_def by simp

lemma length_substring_280: "length (substring s 0 280) \<le> 280"
  using length_substring_0 [of s 280] by simp

lemma lastIndexOf_from_le: "lastIndexOf_from s p k \<le> int k"
  by (induction k) auto

lemma length_truncate_tweet: "length (truncate_tweet cleaned) \<le> 280"
proof -
  let ?slice = "substring cleaned 0 280"
  have s: "length ?slice \<le> 280" by (rule length_substring_280)
  have a: "length (trim (substring ?slice 0 b)) \<le> 280" for b
    using length_trim_le [of "substring ?slice 0 b"] length_substring_le [of ?slice 0 b] s
    by linarith
  have c: "length (trim (substring ?slice 0 b) @ str ''...'') \<le> 280" if "0 \<le> b" "b \<le> 277" for b
  proof -
    have "length (substring ?slice 0 b) \<le> nat b" by (rule length_substring_0)
    then have "length (trim (substring ?slice 0 b)) \<le> 277"
      using length_trim_le [of "substring ?slice 0 b"] that(2) by linarith
    then show ?thesis by simp
  qed
  have d: "lastIndexOf_from ?slice (str '' '') 277 \<le> 277"
    using lastIndexOf_from_le [of ?slice "str '' ''" 277] by simp
  show ?thesis
    unfolding truncate_tweet_def Let_def
    using a c d by (auto simp del: map_eq_conv of_char_Char)
qed

lemma cleanup_twitter_length:
  "length (cleanupGeneratedContent content (str ''twitter'')) \<le> 280"
proof -
  have ne: "str ''twitter'' \<noteq> str ''instagram''" by simp
  show ?thesis
    unfolding cleanupGeneratedContent_def Let_def
    using length_truncate_tweet ne by (simp del: list.map)
qed

text \<open>
  The fallback text for twitter is the concept and 63 code units more, whatever the
  concept.
\<close>

lemma getFallbackContent_twitter_length:
  "ToString num (concept idea) = Some c \<Longrightarrow>
   map_option length (getFallbackContent num idea (str ''twitter'')) = Some (length c + 63)"
  by (simp add: getFallbackContent_def Let_def)

text \<open>
  C5, at the input where the code departs from it: an idea whose concept has 250 code
  units, the platform twitter, and a model call that throws. The entry carries the
  fallback text, the concept followed by 63 more code units, uncut: 313 code units, more
  than the 280 of the platform.
\<close>

theorem twitter_fallback_exceeds_limit:
  "fst (generatePlatformContent demo_env demo_business
          [idea_with_concept (replicate 250 97)] [str ''twitter''] 1) =
     Inr [\<lparr>content_idea = JStr (replicate 250 97), content_platform = str ''twitter'',
           content_text =
             replicate 250 97 @ str '' '' @ [226, 8364, 8221]
             @ str '' this is worth watching. What's your take? ''
             @ [240, 376, 8216, 8225] @ str '' #Crypto #AI'',
           content_strategy = str ''value_first''\<rparr>] \<and>
   length (replicate 250 97 @ str '' '' @ [226, 8364, 8221]
             @ str '' this is worth watching. What's your take? ''
             @ [240, 376, 8216, 8225] @ str '' #Crypto #AI'') = 313 \<and>
   (313::nat) > 280"
  by (simp add: generatePlatformContent_def content_entry_def generateContentForPlatform_def
      bind_io_def demo_env_def request_error_def getFallbackContent_def
      idea_with_concept_def strategy_of_def demo_business_def make_businessData_def
      demo_config_def no_options_def Let_def)

section \<open>Properties of the pipeline\<close>

text \<open>
  C2, at the input where the code departs from it: when the initial \<open>rm\<close> of the
  \<open>current_post\<close> directory throws, \<open>runPipeline\<close> rejects with that exception, whatever
  the configuration, the options and the rest of the environment. The call stands before
  the \<open>try\<close> block.
\<close>

theorem runPipeline_rm_failure_escapes:
  "runPipeline (env\<lparr>rm := (\<lambda>path w. (Inl e, w))\<rparr>) cfg options w = (Inl e, w)"
  by (simp add: runPipeline_def bind_io_def Let_def)

text \<open>The same holds for the \<open>mkdir\<close> that follows the \<open>rm\<close>.\<close>

lemma runPipeline_mkdir_failure_escapes:
  assumes "rm env currentPostDir w = (Inr (), w1)"
      and "mkdir env currentPostDir w1 = (Inl e, w2)"
  shows "runPipeline env cfg options w = (Inl e, w2)"
  using assms by (simp add: runPipeline_def bind_io_def Let_def)

text \<open>
  An exception raised by a step inside the \<open>try\<close> block is caught: the run returns the
  error result with that exception's message.
\<close>

lemma runPipeline_catches_step_errors:
  assumes "rm env currentPostDir w = (Inr (), w1)"
      and "mkdir env currentPostDir w1 = (Inr (), w2)"
      and "pipeline_steps env cfg options (make_businessData cfg options)
             (case opt_platforms options of Some ps \<Rightarrow> ps
              | None \<Rightarrow> output_platforms (config_output cfg))
             (sources_used (config_sources cfg)) (Date_now env w) w2 = (Inl e, w3)"
  shows "runPipeline env cfg options w =
           (Inr (error_result (make_businessData cfg options) (sources_used (config_sources cfg))
                   (Date_now env w) (Date_now env w3) e), w3)"
  using assms by (simp add: runPipeline_def bind_io_def Let_def)

lemma save_step_demo_env: "\<exists>saved. save_step demo_env content w = (Inr saved, w)"
  by (cases content)
    (simp_all add: save_step_def return_io_def bind_io_def demo_env_def Let_def)

lemma analyzeTrends_rejecting:
  "analyzeTrends sources rejecting_services keywords bd = Inr empty_trends"
  by (simp add: analyzeTrends_def rejecting_services_def settled_or_empty_def empty_trends_def)

lemma select_keywords_demo:
  "select_keywords demo_env demo_config no_options bd w = (Inr [str ''bitcoin''], w)"
proof -
  have t: "trim (str ''bitcoin'') \<noteq> []"
    by (simp add: trim_def is_space_def)
  have p: "output_keywords (config_output demo_config) = [str ''bitcoin'']"
    "keywordsPerRun (config_output demo_config) = 6" "opt_keywords no_options = None"
    by (simp_all add: demo_config_def no_options_def)
  have sh: "shuffle demo_env xs w = (xs, w)" for xs by (simp add: demo_env_def)
  show ?thesis
    unfolding select_keywords_def Let_def p
    using t by (simp add: sh return_io_def del: list.map)
qed

lemma demo_env_ops:
  "rm demo_env path w = (Inr (), w)"
  "mkdir demo_env path w = (Inr (), w)"
  "settle_sources demo_env keywords w = ((rejecting_services, keywords), w)"
  "getRecentPostSnippets demo_env limit w = ([], w)"
  "makeRequest demo_env prompt maxTokens 0 = (Inr (str ''Tweet: gm''), Suc 0)"
  "saveToFile demo_env w = (Inr (str ''process_log.txt''), w)"
  by (simp_all add: demo_env_def)

lemma demo_config_logToFile: "logToFile (config_output demo_config)"
  by (simp add: demo_config_def)

lemma demo_answer_ideas:
  "parsePostIdeasFromResponse (str ''Tweet: gm'') t = getFallbackPostIdeas t"
proof -
  have "match_array (str ''Tweet: gm'') = None" by code_simp
  then show ?thesis by (simp only: parsePostIdeasFromResponse_def option.case)
qed

lemma demo_ideas_strings:
  "\<forall>idea\<in>set (take n (parsePostIdeasFromResponse (str ''Tweet: gm'') t)).
     is_string (concept idea)"
proof -
  have "list_all well_typed (getFallbackPostIdeas t)" by (rule fallback_well_typed)
  then have "\<forall>idea\<in>set (getFallbackPostIdeas t). is_string (concept idea)"
    by (simp add: list_all_iff well_typed_def)
  then show ?thesis
    unfolding demo_answer_ideas using set_take_subset [of n "getFallbackPostIdeas t"] by blast
qed

lemma demo_pipeline_steps:
  "\<exists>r w'. pipeline_steps demo_env demo_config no_options bd platforms used start 0 = (Inr r, w')
        \<and> result_status r = Success \<and> result_trends r = empty_trends
        \<and> sourcesUsed (result_meta r) = used"
proof -
  have skip: "opt_skipContent no_options \<noteq> Some True"
    by (simp add: no_options_def)
  let ?ideas = "take (maxContentPerIdea (config_output demo_config))
          (parsePostIdeasFromResponse (str ''Tweet: gm'') empty_trends)"
  have "\<forall>idea\<in>set ?ideas. is_string (concept idea)" by (rule demo_ideas_strings)
  from generatePlatformContent_strings [OF this, of demo_env bd platforms "Suc 0"]
  obtain generated w1 where
    g: "generatePlatformContent demo_env bd ?ideas platforms (Suc 0) = (Inr generated, w1)"
    by (elim exE)
  obtain saved where s: "save_step demo_env generated w1 = (Inr saved, w1)"
    using save_step_demo_env [of generated w1] by (rule exE)
  show ?thesis
    unfolding pipeline_steps_def generatePostIdeas_def Let_def
    by (simp add: bind_io_def return_io_def select_keywords_demo demo_env_ops
        analyzeTrends_rejecting skip g s demo_config_logToFile del: list.map)
qed

text \<open>
  In every result of a run, of success or of error, \<open>sourcesUsed\<close> is the list made from
  the switches of the configuration: what the adapters return has no part in it.
\<close>

lemma bind_io_Inr:
  "bind_io m f w = (Inr y, w') \<Longrightarrow> \<exists>x w1. m w = (Inr x, w1) \<and> f x w1 = (Inr y, w')"
  by (auto simp: bind_io_def split: prod.splits sum.splits)

lemma pipeline_steps_sourcesUsed:
  assumes "pipeline_steps env cfg options bd platforms used start w = (Inr r, w')"
  shows "sourcesUsed (result_meta r) = used \<and> result_status r = Success"
  using assms
  by (auto simp: pipeline_steps_def case_prod_beta dest!: bind_io_Inr)

lemma runPipeline_sourcesUsed:
  assumes "runPipeline env cfg options w = (Inr r, w')"
  shows "sourcesUsed (result_meta r) = sources_used (config_sources cfg)"
  using assms
  by (auto simp: runPipeline_def Let_def error_result_def
      dest!: bind_io_Inr pipeline_steps_sourcesUsed split: prod.splits sum.splits)

text \<open>
  C7, at the input where the code departs from it: a run with the example configuration
  (google, coingecko and news switched on) in which all five adapters reject. The run
  succeeds and its snapshot has five empty lists, as the claim says, but \<open>sourcesUsed\<close>
  is the list of the configured sources, not the empty list: it is built from the
  configuration before any adapter is called.
\<close>

theorem sourcesUsed_when_all_adapters_fail:
  "map_sum id (\<lambda>r. (result_status r, result_trends r, sourcesUsed (result_meta r)))
     (fst (runPipeline demo_env demo_config no_options 0)) =
   Inr (Success, empty_trends, [str ''google'', str ''coingecko'', str ''news''])"
proof -
  have u: "sources_used (config_sources demo_config) =
             [str ''google'', str ''coingecko'', str ''news'']"
    by (simp add: sources_used_def demo_config_def)
  obtain r w' where
    "pipeline_steps demo_env demo_config no_options (make_businessData demo_config no_options)
       (case opt_platforms no_options of Some ps \<Rightarrow> ps
        | None \<Rightarrow> output_platforms (config_output demo_config))
       (sources_used (config_sources demo_config)) (Date_now demo_env 0) 0 = (Inr r, w')"
    "result_status r = Success" "result_trends r = empty_trends"
    "sourcesUsed (result_meta r) = sources_used (config_sources demo_config)"
    using demo_pipeline_steps [of "make_businessData demo_config no_options"
        "case opt_platforms no_options of Some ps \<Rightarrow> ps
         | None \<Rightarrow> output_platforms (config_output demo_config)"
        "sources_used (config_sources demo_config)" "Date_now demo_env 0"]
    by (elim exE conjE)
  then show ?thesis
    unfolding runPipeline_def Let_def
    by (simp add: bind_io_def demo_env_ops u del: list.map)
qed

end

